theory Spec2Isabelle
  imports Main "HOL-Library.Sublist"
begin

section \<open>Python strings\<close>

text \<open>
  A Python \<open>str\<close> is a sequence of code points. It is modelled as a HOL \<open>string\<close>
  whose characters are the code points 0 to 255 (Latin-1), so that the no-break space
  U+00A0 of an empty calendar cell is the character \<open>CHR 0xA0\<close>. On these code points
  the whitespace of \<open>str.strip\<close> is \<open>\t \n \v \f \r\<close>, \<open>0x1C\<close>..\<open>0x1F\<close>, the space,
  the next-line character U+0085 and the no-break space; \<open>str.lower\<close> maps \<open>A\<close>..\<open>Z\<close>
  and the capital letters \<open>0xC0\<close>..\<open>0xDE\<close> other than the multiplication sign \<open>0xD7\<close>
  to the letter 32 code points further; and the only decimal digits are \<open>0\<close>..\<open>9\<close>.
\<close>

definition py_isspace :: "char \<Rightarrow> bool" where
  "py_isspace c \<longleftrightarrow>
     c \<in> {CHR 0x09, CHR 0x0A, CHR 0x0B, CHR 0x0C, CHR 0x0D,
          CHR 0x1C, CHR 0x1D, CHR 0x1E, CHR 0x1F, CHR 0x20, CHR 0x85, CHR 0xA0}"

definition lstrip :: "string \<Rightarrow> string" where
  "lstrip s = dropWhile py_isspace s"

definition rstrip :: "string \<Rightarrow> string" where
  "rstrip s = rev (dropWhile py_isspace (rev s))"

definition strip :: "string \<Rightarrow> string" where
  "strip s = rstrip (lstrip s)"

definition lstrip_chars :: "char \<Rightarrow> string \<Rightarrow> string" where
  "lstrip_chars c s = dropWhile (\<lambda>x. x = c) s"

definition is_upper :: "char \<Rightarrow> bool" where
  "is_upper c \<longleftrightarrow>
     65 \<le> (of_char c :: nat) \<and> (of_char c :: nat) \<le> 90
     \<or> 192 \<le> (of_char c :: nat) \<and> (of_char c :: nat) \<le> 222 \<and> (of_char c :: nat) \<noteq> 215"

definition lower_char :: "char \<Rightarrow> char" where
  "lower_char c = (if is_upper c then char_of ((of_char c :: nat) + 32) else c)"

definition lower :: "string \<Rightarrow> string" where
  "lower s = map lower_char s"

text \<open>\<open>pat in s\<close>: some suffix of \<open>s\<close> starts with \<open>pat\<close>.\<close>

fun contains :: "string \<Rightarrow> string \<Rightarrow> bool" where
  "contains pat [] = (pat = [])"
| "contains pat (x # xs) = (prefix pat (x # xs) \<or> contains pat xs)"

text \<open>\<open>s.split(c)\<close> for a one-character separator: always at least one field.\<close>

fun split_on :: "char \<Rightarrow> string \<Rightarrow> string list" where
  "split_on c [] = [[]]"
| "split_on c (x # xs) =
     (if x = c then [] # split_on c xs
      else (case split_on c xs of
              [] \<Rightarrow> [[x]]
            | field # fields \<Rightarrow> (x # field) # fields))"

text \<open>\<open>c.join(fields)\<close> for a one-character separator.\<close>

fun join :: "char \<Rightarrow> string list \<Rightarrow> string" where
  "join c [] = []"
| "join c [field] = field"
| "join c (field # next_field # fields) = field @ c # join c (next_field # fields)"

text \<open>
  \<open>s.replace(old, new)\<close>: the occurrences of \<open>old\<close> are replaced from the left and do
  not overlap; an empty \<open>old\<close> matches before every character and at the end.
\<close>

function replace :: "string \<Rightarrow> string \<Rightarrow> string \<Rightarrow> string" where
  "replace old new s =
     (if old = [] then new @ concat (map (\<lambda>c. c # new) s)
      else if s = [] then []
      else if prefix old s then new @ replace old new (drop (length old) s)
      else hd s # replace old new (tl s))"
  by pat_completeness auto
termination
  by (relation "measure (\<lambda>(old, new, s). length s)") (auto simp: neq_Nil_conv)

section \<open>Python's int() on a string\<close>

text \<open>
  \<open>int(s)\<close> in base 10: blanks around the number, one optional sign, then digits in
  groups separated by single underscores. The blanks are the C whitespace
  \<open>\t \n \v \f \r\<close> and the space, and the whitespace beyond ASCII, U+0085 and U+00A0,
  which the conversion turns into spaces first; \<open>0x1C\<close>..\<open>0x1F\<close> are not among them.
  A number of more than 4300 digits (the default of \<open>sys.get_int_max_str_digits()\<close>;
  leading zeros count, signs, underscores and blanks do not) is refused. Anything
  refused is a ValueError, here \<open>None\<close>.
\<close>

definition int_isspace :: "char \<Rightarrow> bool" where
  "int_isspace c \<longleftrightarrow>
     c \<in> {CHR 0x09, CHR 0x0A, CHR 0x0B, CHR 0x0C, CHR 0x0D, CHR 0x20, CHR 0x85, CHR 0xA0}"

definition int_max_str_digits :: nat where
  "int_max_str_digits = 4300"

definition is_digit :: "char \<Rightarrow> bool" where
  "is_digit c \<longleftrightarrow> 48 \<le> (of_char c :: nat) \<and> (of_char c :: nat) \<le> 57"

definition digit_val :: "char \<Rightarrow> int" where
  "digit_val c = int (of_char c) - 48"

definition digits_val :: "string \<Rightarrow> int" where
  "digits_val ds = foldl (\<lambda>acc c. acc * 10 + digit_val c) 0 ds"

definition py_digits :: "string \<Rightarrow> int option" where
  "py_digits body =
     (let groups = split_on (CHR ''_'') body
      in if list_all (\<lambda>g. g \<noteq> [] \<and> list_all is_digit g) groups
            \<and> length (concat groups) \<le> int_max_str_digits
         then Some (digits_val (concat groups)) else None)"

definition py_int :: "string \<Rightarrow> int option" where
  "py_int s =
     (let t = rev (dropWhile int_isspace (rev (dropWhile int_isspace s)))
      in case t of
           [] \<Rightarrow> None
         | c # body \<Rightarrow>
             if c = CHR ''-'' then map_option uminus (py_digits body)
             else if c = CHR ''+'' then py_digits body
             else py_digits t)"

section \<open>Shift Classifier and Parser\<close>

record shift =
  shift_type :: string
  shift_start :: int
  shift_end :: int
  hours :: int

text \<open>
  Tuple unpacking \<open>a, b = xs\<close>: a ValueError unless \<open>xs\<close> has exactly two elements.
\<close>

definition unpack2 :: "'a list \<Rightarrow> ('a \<times> 'a) option" where
  "unpack2 xs = (case xs of [a, b] \<Rightarrow> Some (a, b) | _ \<Rightarrow> None)"

text \<open>\<open>s or '0'\<close>.\<close>

definition or_zero :: "string \<Rightarrow> string" where
  "or_zero s = (if s = [] then ''0'' else s)"

text \<open>
  The body of the loop over the lines of a cell, for a stripped, non-empty line: the
  inner \<open>try\<close> of \<open>process_roster\<close>. \<open>None\<close> is the ValueError branch, which skips the
  line.
\<close>

definition parse_line :: "string \<Rightarrow> shift option" where
  "parse_line line =
     (case line of
        [] \<Rightarrow> None
      | c # rest \<Rightarrow>
          (let times_and_hours = strip rest in
           case unpack2 (split_on (CHR ''('') times_and_hours) of
             None \<Rightarrow> None
           | Some (times_str, hours_str) \<Rightarrow>
               (case unpack2 (split_on (CHR ''-'') times_str) of
                  None \<Rightarrow> None
                | Some (shift_start_str, shift_end_str) \<Rightarrow>
                    (case py_int (or_zero (lstrip_chars (CHR ''0'') shift_start_str)) of
                       None \<Rightarrow> None
                     | Some start_val \<Rightarrow>
                         (case py_int (or_zero (lstrip_chars (CHR ''0'') shift_end_str)) of
                            None \<Rightarrow> None
                          | Some end_val \<Rightarrow>
                              (case py_int (strip (replace '')'' [] hours_str)) of
                                 None \<Rightarrow> None
                               | Some h \<Rightarrow>
                                   Some \<lparr>shift_type = [c], shift_start = start_val,
                                         shift_end = end_val, hours = h\<rparr>))))))"

text \<open>
  The loop \<open>for line in lines\<close> with its two accumulators \<open>shifts\<close> and
  \<open>hours_worked\<close>.
\<close>

fun parse_lines :: "string list \<Rightarrow> shift list \<Rightarrow> int \<Rightarrow> shift list \<times> int" where
  "parse_lines [] shifts hours_worked = (shifts, hours_worked)"
| "parse_lines (l # ls) shifts hours_worked =
     (let line = strip l in
      if line = [] then parse_lines ls shifts hours_worked
      else (case parse_line line of
              None \<Rightarrow> parse_lines ls shifts hours_worked
            | Some r \<Rightarrow> parse_lines ls (shifts @ [r]) (hours_worked + hours r)))"

text \<open>
  The records of the lines that parse, in the order of the lines: what the loop is
  expected to collect.
\<close>

definition valid_records :: "string list \<Rightarrow> shift list" where
  "valid_records ls = List.map_filter parse_line (filter (\<lambda>l. l \<noteq> []) (map strip ls))"

definition cell_lines :: "string \<Rightarrow> string list" where
  "cell_lines cell_content = split_on (CHR 0x0A) (replace ''<br/>'' [CHR 0x0A] cell_content)"

definition parse_cell :: "string \<Rightarrow> shift list \<times> int" where
  "parse_cell cell_content = parse_lines (cell_lines cell_content) [] 0"

datatype day_outcome = NotRostered | NotFinalized | Rostered "shift list" int

text \<open>
  The \<open>if\<close>/\<open>elif\<close>/\<open>else\<close> of \<open>process_roster\<close> on the stripped text of the cell.
\<close>

definition classify :: "string \<Rightarrow> day_outcome" where
  "classify cell_content =
     (if cell_content = [] \<or> cell_content = ''&nbsp;'' then NotRostered
      else if contains ''not finalised'' (lower cell_content) then NotFinalized
      else (case parse_cell cell_content of
              (shifts, hours_worked) \<Rightarrow> Rostered shifts hours_worked))"

section \<open>Calendar dates\<close>

text \<open>
  \<open>datetime.date\<close>: a year, a month and a day, with the arithmetic of the standard
  library, which goes through the proleptic Gregorian ordinal (1 January of year 1 is
  day 1). Dates run from 0001-01-01 to 9999-12-31; leaving that range is an
  OverflowError.
\<close>

record date =
  year :: int
  month :: int
  day :: int

definition is_leap :: "int \<Rightarrow> bool" where
  "is_leap y \<longleftrightarrow> y mod 4 = 0 \<and> (y mod 100 \<noteq> 0 \<or> y mod 400 = 0)"

definition DAYS_IN_MONTH :: "int list" where
  "DAYS_IN_MONTH = [31, 28, 31, 30, 31, 30, 31, 31, 30, 31, 30, 31]"

definition days_in_month :: "int \<Rightarrow> int \<Rightarrow> int" where
  "days_in_month y m = (if m = 2 \<and> is_leap y then 29 else DAYS_IN_MONTH ! nat (m - 1))"

definition DAYS_BEFORE_MONTH :: "int \<Rightarrow> int" where
  "DAYS_BEFORE_MONTH m = sum_list (take (nat (m - 1)) DAYS_IN_MONTH)"

definition days_before_month :: "int \<Rightarrow> int \<Rightarrow> int" where
  "days_before_month y m = DAYS_BEFORE_MONTH m + (if m > 2 \<and> is_leap y then 1 else 0)"

definition days_before_year :: "int \<Rightarrow> int" where
  "days_before_year y = (let y1 = y - 1 in y1 * 365 + y1 div 4 - y1 div 100 + y1 div 400)"

definition MAXORDINAL :: int where
  "MAXORDINAL = 3652059"

definition valid_date :: "int \<Rightarrow> int \<Rightarrow> int \<Rightarrow> bool" where
  "valid_date y m d \<longleftrightarrow>
     1 \<le> y \<and> y \<le> 9999 \<and> 1 \<le> m \<and> m \<le> 12 \<and> 1 \<le> d \<and> d \<le> days_in_month y m"

text \<open>The constructor \<open>date(y, m, d)\<close>: a ValueError (\<open>None\<close>) outside the calendar.\<close>

definition make_date :: "int \<Rightarrow> int \<Rightarrow> int \<Rightarrow> date option" where
  "make_date y m d =
     (if valid_date y m d then Some \<lparr>year = y, month = m, day = d\<rparr> else None)"

definition toordinal :: "date \<Rightarrow> int" where
  "toordinal dt = days_before_year (year dt) + days_before_month (year dt) (month dt) + day dt"

definition fromordinal :: "int \<Rightarrow> date" where
  "fromordinal ordinal =
     (let n = ordinal - 1;
          n400 = n div 146097; n = n mod 146097;
          n100 = n div 36524; n = n mod 36524;
          n4 = n div 1461; n = n mod 1461;
          n1 = n div 365; n = n mod 365;
          y = n400 * 400 + 1 + n100 * 100 + n4 * 4 + n1
      in if n1 = 4 \<or> n100 = 4 then \<lparr>year = y - 1, month = 12, day = 31\<rparr>
         else
           (let leapyear = (n1 = 3 \<and> (n4 \<noteq> 24 \<or> n100 = 3));
                m = (n + 50) div 32;
                preceding = DAYS_BEFORE_MONTH m + (if m > 2 \<and> leapyear then 1 else 0)
            in if preceding > n
               then (let m = m - 1;
                         preceding = preceding
                           - (DAYS_IN_MONTH ! nat (m - 1) + (if m = 2 \<and> leapyear then 1 else 0))
                     in \<lparr>year = y, month = m, day = n - preceding + 1\<rparr>)
               else \<lparr>year = y, month = m, day = n - preceding + 1\<rparr>))"

text \<open>\<open>date.weekday()\<close>: Monday is 0, Friday is 4, Sunday is 6.\<close>

definition weekday :: "date \<Rightarrow> int" where
  "weekday dt = (toordinal dt + 6) mod 7"

text \<open>
  How a run can stop early: \<open>sys.exit(n)\<close>, or an exception that nothing catches (the
  interpreter prints the traceback and the exit status is 1).
\<close>

datatype exit = SysExit nat | Uncaught string

text \<open>\<open>dt + timedelta(days=n)\<close>.\<close>

definition add_days :: "date \<Rightarrow> int \<Rightarrow> exit + date" where
  "add_days dt n =
     (let ordinal = toordinal dt + n
      in if 0 < ordinal \<and> ordinal \<le> MAXORDINAL then Inr (fromordinal ordinal)
         else Inl (Uncaught ''OverflowError''))"

subsection \<open>Rendering numbers and dates\<close>

definition digit_char :: "nat \<Rightarrow> char" where
  "digit_char n = ''0123456789'' ! n"

function show_nat :: "nat \<Rightarrow> string" where
  "show_nat n =
     (if n < 10 then [digit_char n] else show_nat (n div 10) @ [digit_char (n mod 10)])"
  by pat_completeness auto
termination
  by (relation "measure id") auto

definition str_int :: "int \<Rightarrow> string" where
  "str_int i = (if i < 0 then CHR ''-'' # show_nat (nat (- i)) else show_nat (nat i))"

definition pad2 :: "int \<Rightarrow> string" where
  "pad2 i = (if i < 10 then CHR ''0'' # str_int i else str_int i)"

definition weekday_name :: "date \<Rightarrow> string" where
  "weekday_name dt =
     [''Monday'', ''Tuesday'', ''Wednesday'', ''Thursday'', ''Friday'', ''Saturday'',
      ''Sunday''] ! nat (weekday dt)"

definition month_name :: "date \<Rightarrow> string" where
  "month_name dt =
     [''January'', ''February'', ''March'', ''April'', ''May'', ''June'', ''July'',
      ''August'', ''September'', ''October'', ''November'', ''December'']
     ! nat (month dt - 1)"

text \<open>
  \<open>strftime\<close> with the formats \<open>%B %Y\<close> and \<open>%Y-%m-%d\<close>, in the C locale; the year is
  not padded, as on glibc.
\<close>

definition month_year_text :: "date \<Rightarrow> string" where
  "month_year_text dt = month_name dt @ '' '' @ str_int (year dt)"

definition iso_text :: "date \<Rightarrow> string" where
  "iso_text dt = str_int (year dt) @ ''-'' @ pad2 (month dt) @ ''-'' @ pad2 (day dt)"

text \<open>\<open>str(dt)\<close>, which is \<open>dt.isoformat()\<close>: the year on four digits.\<close>

definition isoformat :: "date \<Rightarrow> string" where
  "isoformat dt =
     replicate (4 - length (str_int (year dt))) (CHR ''0'') @ str_int (year dt)
     @ ''-'' @ pad2 (month dt) @ ''-'' @ pad2 (day dt)"

text \<open>The part \<open>(Friday) 5/1/2024\<close> that the three messages share.\<close>

definition day_text :: "date \<Rightarrow> string" where
  "day_text dt =
     ''('' @ weekday_name dt @ '') '' @ str_int (day dt) @ ''/'' @ str_int (month dt)
     @ ''/'' @ str_int (year dt)"

subsection \<open>strptime with the format %Y-%m-%d\<close>

text \<open>
  The standard library turns the format into the regular expression
  \<open>(\d\d\d\d)-(1[0-2]|0[1-9]|[1-9])-(3[0-1]|[1-2]\d|0[1-9]|[1-9]| [1-9])\<close>, matches it at
  the start of the text, refuses text left over after the match, and builds the date.
  Each matcher lists its matches in the order in which the backtracking matcher tries
  them, with the rest of the text; the first complete match is the one taken.
\<close>

definition in_range :: "char \<Rightarrow> char \<Rightarrow> char \<Rightarrow> bool" where
  "in_range lo hi c \<longleftrightarrow> (of_char lo :: nat) \<le> of_char c \<and> (of_char c :: nat) \<le> of_char hi"

definition match_lit :: "char \<Rightarrow> string \<Rightarrow> string list" where
  "match_lit ch s = (case s of [] \<Rightarrow> [] | x # r \<Rightarrow> if x = ch then [r] else [])"

definition match_year :: "string \<Rightarrow> (int \<times> string) list" where
  "match_year s =
     (case s of
        a # b # c # d # r \<Rightarrow>
          if list_all is_digit [a, b, c, d] then [(digits_val [a, b, c, d], r)] else []
      | _ \<Rightarrow> [])"

text \<open>One alternative made of two character classes, and one made of a single class.\<close>

definition two_chars :: "(char \<Rightarrow> bool) \<Rightarrow> (char \<Rightarrow> bool) \<Rightarrow> string \<Rightarrow> (int \<times> string) list" where
  "two_chars p q s =
     (case s of
        a # b # r \<Rightarrow> if p a \<and> q b then [(digits_val (filter is_digit [a, b]), r)] else []
      | _ \<Rightarrow> [])"

definition one_char :: "(char \<Rightarrow> bool) \<Rightarrow> string \<Rightarrow> (int \<times> string) list" where
  "one_char p s = (case s of a # r \<Rightarrow> if p a then [(digit_val a, r)] else [] | _ \<Rightarrow> [])"

definition match_month :: "string \<Rightarrow> (int \<times> string) list" where
  "match_month s =
     two_chars (\<lambda>c. c = CHR ''1'') (in_range (CHR ''0'') (CHR ''2'')) s
     @ two_chars (\<lambda>c. c = CHR ''0'') (in_range (CHR ''1'') (CHR ''9'')) s
     @ one_char (in_range (CHR ''1'') (CHR ''9'')) s"

definition match_day :: "string \<Rightarrow> (int \<times> string) list" where
  "match_day s =
     two_chars (\<lambda>c. c = CHR ''3'') (in_range (CHR ''0'') (CHR ''1'')) s
     @ two_chars (in_range (CHR ''1'') (CHR ''2'')) is_digit s
     @ two_chars (\<lambda>c. c = CHR ''0'') (in_range (CHR ''1'') (CHR ''9'')) s
     @ one_char (in_range (CHR ''1'') (CHR ''9'')) s
     @ two_chars (\<lambda>c. c = CHR '' '') (in_range (CHR ''1'') (CHR ''9'')) s"

definition regex_ymd :: "string \<Rightarrow> (int \<times> int \<times> int \<times> string) list" where
  "regex_ymd s =
     concat (map (\<lambda>(y, r1).
       concat (map (\<lambda>r2.
         concat (map (\<lambda>(m, r3).
           concat (map (\<lambda>r4.
             map (\<lambda>(d, r5). (y, m, d, r5)) (match_day r4))
           (match_lit (CHR ''-'') r3)))
         (match_month r2)))
       (match_lit (CHR ''-'') r1)))
     (match_year s))"

definition strptime_ymd :: "string \<Rightarrow> date option" where
  "strptime_ymd s =
     (case regex_ymd s of
        [] \<Rightarrow> None
      | (y, m, d, rest) # _ \<Rightarrow> if rest = [] then make_date y m d else None)"

section \<open>Date Planner and command line\<close>

datatype event =
    Print string
  | SetupWebdriver
  | DriverGet
  | DriverQuit
  | Sleep nat
  | LogMessage string string string string string int int int int
  | SendSms string "string list"

text \<open>
  A run is the list of the calls it makes to the outside, in order, and how it stops.
  \<open>LogMessage\<close> carries the fields of the logged dictionary after \<open>time\<close>: level,
  event, sms_content, day, date, shift_start, shift_end, hours, retry_attempts.
  Of the console output only the diagnostic of \<open>determine_base_date\<close> is recorded.
\<close>

definition emit :: "event list \<Rightarrow> event list \<times> 'a \<Rightarrow> event list \<times> 'a" where
  "emit es r = (es @ fst r, snd r)"

definition invalid_date_diagnostic :: string where
  "invalid_date_diagnostic =
     ''Error: Invalid date format. Please use 'today', 'tomorrow', or 'YYYY-MM-DD'.''"

definition determine_base_date :: "date \<Rightarrow> string \<Rightarrow> event list \<times> (exit + date)" where
  "determine_base_date today_date date_str =
     (if lower date_str = ''today'' then ([], Inr today_date)
      else if lower date_str = ''tomorrow'' then ([], add_days today_date 1)
      else (case strptime_ymd date_str of
              Some base_date \<Rightarrow> ([], Inr base_date)
            | None \<Rightarrow>
                ([Print invalid_date_diagnostic], Inl (SysExit 1))))"

definition get_test_dates :: "date \<Rightarrow> exit + date list" where
  "get_test_dates base_date =
     (if weekday base_date = 4 then
        (case add_days base_date 1 of
           Inl x \<Rightarrow> Inl x
         | Inr saturday \<Rightarrow>
             (case add_days base_date 2 of
                Inl x \<Rightarrow> Inl x
              | Inr sunday \<Rightarrow> Inr [saturday, sunday]))
      else
        (case add_days base_date 1 of
           Inl x \<Rightarrow> Inl x
         | Inr next_day \<Rightarrow> Inr [next_day]))"

section \<open>Configuration and Cell Locator\<close>

text \<open>
  \<open>config.py\<close> gives the three recipients of \<open>RECIPIENTS\<close> and \<open>MUM_SEND_DAYS\<close>. The
  table \<open>month_offsets\<close> is imported from the module \<open>offsets\<close>, which is not part of
  the sources at hand: it is a parameter, a dictionary from month numbers to offsets.
\<close>

record settings =
  recipient_self :: string
  recipient_wife :: string
  recipient_mum :: string
  MUM_SEND_DAYS :: "string list"
  month_offsets :: "int \<rightharpoonup> int"

definition config :: "(int \<rightharpoonup> int) \<Rightarrow> settings" where
  "config offsets =
     \<lparr>recipient_self = ''+1234567890'', recipient_wife = ''+0987654321'',
      recipient_mum = ''+1122334455'', MUM_SEND_DAYS = [''wed'', ''thu''],
      month_offsets = offsets\<rparr>"

text \<open>\<open>month_offsets.get(month, 0) + day\<close>.\<close>

definition cell_index :: "(int \<rightharpoonup> int) \<Rightarrow> int \<Rightarrow> int \<Rightarrow> int" where
  "cell_index offsets m d = (case offsets m of None \<Rightarrow> 0 | Some offset \<Rightarrow> offset) + d"

definition date_cell_id :: "int \<Rightarrow> string" where
  "date_cell_id idx = ''ctl00_ContentPlaceHolder1_calendar_DateCell'' @ str_int idx"

definition recipients :: "settings \<Rightarrow> string \<Rightarrow> string list" where
  "recipients cfg current_day =
     [recipient_self cfg, recipient_wife cfg]
     @ (if current_day \<in> set (MUM_SEND_DAYS cfg) then [recipient_mum cfg] else [])"

section \<open>Scraping one attempt\<close>

text \<open>
  The browser is the environment. A call that waits (\<open>wait.until\<close>) finds its element,
  times out (TimeoutException) or fails with another exception; a call that does not
  wait returns or raises. For each target date the environment says what the label of
  the calendar reads, how the navigation to the next month ends, what the lookup of a
  cell by its identifier gives (its \<open>textContent\<close>), and whether an exception is raised
  inside the guarded block that handles a rostered cell, before or after the message
  of the day has been added to \<open>combined_message\<close>.
\<close>

datatype 'a waited = Found 'a | TimedOut | Failed string

datatype 'a returned = Ok 'a | Raised string

datatype fault = NoFault | FaultBeforeMessage string | FaultAfterMessage string

record date_view =
  label_text :: "string returned"
  navigation :: "unit waited"
  cell :: "string \<Rightarrow> string waited"
  shift_fault :: fault

text \<open>
  One pass of the loop body of \<open>process_roster\<close>: \<open>Continue\<close> goes on with the next
  date (\<open>continue\<close>, or the end of the body), \<open>Break\<close> leaves the loop with
  \<open>not_finalised_found\<close> set, \<open>Raise\<close> is an exception that leaves the function. The
  text is what the pass adds to \<open>combined_message\<close>.
\<close>

datatype step = Continue string "event list" | Break string "event list" | Raise string

definition process_cell :: "date \<Rightarrow> string \<Rightarrow> fault \<Rightarrow> step" where
  "process_cell target_date cell_content flt =
     (case classify cell_content of
        NotRostered \<Rightarrow>
          (let message = ''Not rostered for '' @ day_text target_date @ ''.''
           in Continue (message @ [CHR 0x0A])
                [LogMessage ''INFO'' ''SMS_SENT'' message (weekday_name target_date)
                   (iso_text target_date) 0 0 0 0])
      | NotFinalized \<Rightarrow>
          (let message = ''Not finalised for '' @ day_text target_date @ ''.''
           in Break (message @ [CHR 0x0A])
                [LogMessage ''WARNING'' ''SHIFT_NOT_FINALISED'' message
                   (weekday_name target_date) (iso_text target_date) 0 0 0 0])
      | Rostered shifts hours_worked \<Rightarrow>
          (let sms_content = ''Hours for '' @ day_text target_date @ '' are: ''
                 @ strip cell_content @ '' (c) Bsecurity'';
               error_data = (\<lambda>e.
                 LogMessage ''ERROR'' ''SHIFT_PROCESSING_ERROR''
                   (''Error processing shift for '' @ isoformat target_date @ '': '' @ e)
                   (weekday_name target_date) (iso_text target_date) 0 0 0 0)
           in case flt of
                NoFault \<Rightarrow>
                  Continue (sms_content @ [CHR 0x0A])
                    [LogMessage ''INFO'' ''SMS_SENT'' sms_content (weekday_name target_date)
                       (iso_text target_date)
                       (if shifts = [] then 0 else shift_start (hd shifts))
                       (if shifts = [] then 0 else shift_end (last shifts))
                       hours_worked 0]
              | FaultBeforeMessage e \<Rightarrow> Continue [] [error_data e]
              | FaultAfterMessage e \<Rightarrow> Continue (sms_content @ [CHR 0x0A]) [error_data e]))"

definition process_date :: "settings \<Rightarrow> date_view \<Rightarrow> date \<Rightarrow> step" where
  "process_date cfg view target_date =
     (case label_text view of
        Raised e \<Rightarrow> Raise e
      | Ok current_month \<Rightarrow>
          (case (if strip current_month \<noteq> month_year_text target_date
                 then navigation view else Found ()) of
             TimedOut \<Rightarrow> Continue [] []
           | Failed e \<Rightarrow> Raise e
           | Found _ \<Rightarrow>
               (case cell view (date_cell_id
                       (cell_index (month_offsets cfg) (month target_date) (day target_date))) of
                  TimedOut \<Rightarrow> Continue [] []
                | Failed e \<Rightarrow> Raise e
                | Found text_content \<Rightarrow>
                    process_cell target_date (strip text_content) (shift_fault view))))"

fun process_roster ::
  "settings \<Rightarrow> (nat \<Rightarrow> date_view) \<Rightarrow> nat \<Rightarrow> date list \<Rightarrow> string
     \<Rightarrow> event list \<times> (string + string \<times> bool)" where
  "process_roster cfg views i [] combined_message = ([], Inr (combined_message, False))"
| "process_roster cfg views i (target_date # rest) combined_message =
     (case process_date cfg (views i) target_date of
        Continue added es \<Rightarrow>
          emit es (process_roster cfg views (Suc i) rest (combined_message @ added))
      | Break added es \<Rightarrow> (es, Inr (combined_message @ added, True))
      | Raise e \<Rightarrow> ([], Inl e))"

section \<open>Session Orchestrator\<close>

record session =
  webdriver :: "unit returned"
  page_load :: "unit returned"
  username_field :: "unit waited"
  password_field :: "unit waited"
  roster_page :: "unit waited"
  views :: "nat \<Rightarrow> date_view"
  current_day :: string

text \<open>
  The body of the \<open>try\<close> of \<open>main\<close> up to the end of the WebDriver session: a timeout at
  one of the three waits of the login quits the driver and calls \<open>sys.exit(1)\<close>, any
  other exception goes to the handler of \<open>main\<close>, and otherwise \<open>process_roster\<close>
  returns \<open>combined_message\<close> and \<open>not_finalised_found\<close>.
\<close>

datatype attempt_result = AuthTimeout | Crashed string | Scraped string bool

definition attempt :: "settings \<Rightarrow> session \<Rightarrow> date list \<Rightarrow> event list \<times> attempt_result" where
  "attempt cfg s test_dates =
     emit [DriverGet]
       (case page_load s of
          Raised e \<Rightarrow> ([], Crashed e)
        | Ok _ \<Rightarrow>
            (case username_field s of
               TimedOut \<Rightarrow> ([DriverQuit], AuthTimeout)
             | Failed e \<Rightarrow> ([], Crashed e)
             | Found _ \<Rightarrow>
                 (case password_field s of
                    TimedOut \<Rightarrow> ([DriverQuit], AuthTimeout)
                  | Failed e \<Rightarrow> ([], Crashed e)
                  | Found _ \<Rightarrow>
                      (case roster_page s of
                         TimedOut \<Rightarrow> ([DriverQuit], AuthTimeout)
                       | Failed e \<Rightarrow> ([], Crashed e)
                       | Found _ \<Rightarrow>
                           (case process_roster cfg (views s) 0 test_dates [] of
                              (es, Inl e) \<Rightarrow> (es, Crashed e)
                            | (es, Inr (combined_message, not_finalised_found)) \<Rightarrow>
                                (es @ [DriverQuit],
                                 Scraped combined_message not_finalised_found))))))"

definition retry_delay :: nat where
  "retry_delay = 60"

definition max_retries :: nat where
  "max_retries = 120"

definition retry_limit_message :: "nat \<Rightarrow> string" where
  "retry_limit_message limit =
     ''Retry limit ('' @ show_nat limit
     @ '') reached. Could not retrieve finalized roster information.''"

text \<open>
  The \<open>while\<close> loop of \<open>main\<close>, with the retry limit as a parameter. The attempt numbered
  \<open>current_retry\<close> talks to the session \<open>sessions current_retry\<close>. The result is the
  calls made and how the run stops: \<open>None\<close> when the loop is left and the script runs
  to its end.
\<close>

function main_loop ::
  "settings \<Rightarrow> (nat \<Rightarrow> session) \<Rightarrow> date list \<Rightarrow> nat \<Rightarrow> nat \<Rightarrow> event list \<times> exit option" where
  "main_loop cfg sessions test_dates limit current_retry =
     (if current_retry < limit then
        emit [SetupWebdriver]
          (case webdriver (sessions current_retry) of
             Raised e \<Rightarrow> ([], Some (Uncaught e))
           | Ok _ \<Rightarrow>
               (case attempt cfg (sessions current_retry) test_dates of
                  (es, AuthTimeout) \<Rightarrow> (es, Some (SysExit 1))
                | (es, Crashed e) \<Rightarrow>
                    (es @ [DriverQuit,
                           SendSms (''Script encountered an error: '' @ e)
                             [recipient_self cfg, recipient_wife cfg],
                           LogMessage ''ERROR'' ''UNEXPECTED_ERROR''
                             (''Script encountered an error: '' @ e) [] [] 0 0 0
                             (int current_retry)],
                     Some (SysExit 1))
                | (es, Scraped combined_message not_finalised_found) \<Rightarrow>
                    if not_finalised_found then
                      (if Suc current_retry < limit then
                         emit (es @ [Sleep retry_delay])
                           (main_loop cfg sessions test_dates limit (Suc current_retry))
                       else
                         (es @ [LogMessage ''ERROR'' ''RETRY_LIMIT_REACHED''
                                  (retry_limit_message limit) [] [] 0 0 0
                                  (int (Suc current_retry)),
                                SendSms (retry_limit_message limit)
                                  [recipient_self cfg, recipient_wife cfg]],
                          Some (SysExit 1)))
                    else
                      (es @ (if strip combined_message \<noteq> []
                             then [SendSms (strip combined_message)
                                     (recipients cfg (current_day (sessions current_retry)))]
                             else []),
                       None)))
      else ([], None))"
  by pat_completeness auto
termination
  by (relation "measure (\<lambda>(cfg, sessions, test_dates, limit, current_retry). limit - current_retry)")
    auto

declare main_loop.simps [simp del]

record world =
  date_arg :: string
  today :: date
  sessions :: "nat \<Rightarrow> session"

definition main :: "settings \<Rightarrow> world \<Rightarrow> event list \<times> exit option" where
  "main cfg w =
     (case determine_base_date (today w) (date_arg w) of
        (es, Inl x) \<Rightarrow> (es, Some x)
      | (es, Inr base_date) \<Rightarrow>
          (case get_test_dates base_date of
             Inl x \<Rightarrow> (es, Some x)
           | Inr test_dates \<Rightarrow>
               emit es (main_loop cfg (sessions w) test_dates max_retries 0)))"

definition exit_status :: "exit option \<Rightarrow> nat" where
  "exit_status x = (case x of None \<Rightarrow> 0 | Some (SysExit n) \<Rightarrow> n | Some (Uncaught e) \<Rightarrow> 1)"

section \<open>Reading a run\<close>

text \<open>The notifications of a run, and the number of attempts it starts.\<close>

fun is_sms :: "event \<Rightarrow> bool" where
  "is_sms (SendSms message numbers) = True"
| "is_sms e = False"

definition sms_sent :: "event list \<Rightarrow> event list" where
  "sms_sent es = filter is_sms es"

definition attempts_started :: "event list \<Rightarrow> nat" where
  "attempts_started es = length (filter (\<lambda>e. e = SetupWebdriver) es)"

text \<open>The calls an attempt makes between the start of the driver and its verdict.\<close>

fun is_scrape_event :: "event \<Rightarrow> bool" where
  "is_scrape_event DriverGet = True"
| "is_scrape_event DriverQuit = True"
| "is_scrape_event (LogMessage lvl ev content d dt s e h r) = True"
| "is_scrape_event e = False"

text \<open>
  An attempt that finds the roster not finalised, and one that succeeds: the driver
  starts, and \<open>process_roster\<close> returns with \<open>not_finalised_found\<close> set, or not set.
\<close>

definition not_finalised_attempt :: "settings \<Rightarrow> session \<Rightarrow> date list \<Rightarrow> bool" where
  "not_finalised_attempt cfg s test_dates \<longleftrightarrow>
     webdriver s = Ok () \<and>
     (case snd (attempt cfg s test_dates) of Scraped message flag \<Rightarrow> flag | _ \<Rightarrow> False)"

definition successful_attempt :: "settings \<Rightarrow> session \<Rightarrow> date list \<Rightarrow> bool" where
  "successful_attempt cfg s test_dates \<longleftrightarrow>
     webdriver s = Ok () \<and>
     (case snd (attempt cfg s test_dates) of Scraped message flag \<Rightarrow> \<not> flag | _ \<Rightarrow> False)"

definition combined_message_of :: "settings \<Rightarrow> session \<Rightarrow> date list \<Rightarrow> string" where
  "combined_message_of cfg s test_dates =
     (case snd (attempt cfg s test_dates) of Scraped message flag \<Rightarrow> message | _ \<Rightarrow> [])"

text \<open>
  The form \<open>YYYY-MM-DD\<close> as the help text of \<open>--date\<close> words it: four digits, a
  hyphen, two digits, a hyphen, two digits.
\<close>

definition is_yyyy_mm_dd :: "string \<Rightarrow> bool" where
  "is_yyyy_mm_dd s \<longleftrightarrow>
     length s = 10 \<and> s ! 4 = CHR ''-'' \<and> s ! 7 = CHR ''-''
     \<and> list_all is_digit (take 4 s @ take 2 (drop 5 s) @ drop 8 s)"

section \<open>Example runs\<close>

text \<open>
  Concrete settings, sessions and dates on which the theorems below are exercised:
  the calendar shows October 2024, every cell holds the same text, and the login
  succeeds unless a field is changed.
\<close>

definition every :: "'a \<Rightarrow> 'b \<Rightarrow> 'a" where
  "every x i = x"

definition first_then :: "nat \<Rightarrow> 'a \<Rightarrow> 'a \<Rightarrow> nat \<Rightarrow> 'a" where
  "first_then n x y i = (if i < n then x else y)"

definition example_config :: settings where
  "example_config = config [10 \<mapsto> 2]"

definition cell_view :: "string \<Rightarrow> date_view" where
  "cell_view t =
     \<lparr>label_text = Ok ''October 2024'', navigation = Found (), cell = every (Found t),
      shift_fault = NoFault\<rparr>"

definition browsing :: "(nat \<Rightarrow> date_view) \<Rightarrow> session" where
  "browsing vs =
     \<lparr>webdriver = Ok (), page_load = Ok (), username_field = Found (),
      password_field = Found (), roster_page = Found (), views = vs,
      current_day = ''wed''\<rparr>"

definition saturday :: date where
  "saturday = \<lparr>year = 2024, month = 10, day = 5\<rparr>"

definition sunday :: date where
  "sunday = \<lparr>year = 2024, month = 10, day = 6\<rparr>"

definition friday :: date where
  "friday = \<lparr>year = 2024, month = 10, day = 4\<rparr>"

text \<open>A run started on Thursday 3 October 2024 with \<open>--date 2024-10-04\<close>.\<close>

definition example_world :: "(nat \<Rightarrow> session) \<Rightarrow> world" where
  "example_world ss =
     \<lparr>date_arg = ''2024-10-04'', today = \<lparr>year = 2024, month = 10, day = 3\<rparr>, sessions = ss\<rparr>"

section \<open>The parser and the classifier\<close>

lemma contains_iff: "contains pat s \<longleftrightarrow> (\<exists>pre post. s = pre @ pat @ post)"
proof (induction s)
  case Nil
  then show ?case by auto
next
  case (Cons x xs)
  show ?case
  proof
    assume "contains pat (x # xs)"
    then consider "prefix pat (x # xs)" | "contains pat xs" by auto
    then show "\<exists>pre post. x # xs = pre @ pat @ post"
    proof cases
      case 1
      then obtain post where "x # xs = pat @ post" by (auto simp: prefix_def)
      then have "x # xs = [] @ pat @ post" by simp
      then show ?thesis by blast
    next
      case 2
      with Cons.IH obtain pre post where "xs = pre @ pat @ post" by blast
      then have "x # xs = (x # pre) @ pat @ post" by simp
      then show ?thesis by blast
    qed
  next
    assume "\<exists>pre post. x # xs = pre @ pat @ post"
    then obtain pre post where eq: "x # xs = pre @ pat @ post" by blast
    show "contains pat (x # xs)"
    proof (cases pre)
      case Nil
      with eq have "prefix pat (x # xs)" by (simp add: prefix_def)
      then show ?thesis by simp
    next
      case (Cons y ys)
      with eq have "xs = ys @ pat @ post" by simp
      with Cons.IH have "contains pat xs" by blast
      then show ?thesis by simp
    qed
  qed
qed

lemma valid_records_Nil: "valid_records [] = []"
  by (simp add: valid_records_def map_filter_simps)

lemma valid_records_Cons:
  "valid_records (l # ls) =
     (if strip l = [] then valid_records ls
      else (case parse_line (strip l) of None \<Rightarrow> valid_records ls
            | Some r \<Rightarrow> r # valid_records ls))"
  by (simp add: valid_records_def map_filter_simps split: option.splits)

lemma parse_lines_eq:
  "parse_lines ls shifts hw =
     (shifts @ valid_records ls, hw + sum_list (map hours (valid_records ls)))"
proof (induction ls arbitrary: shifts hw)
  case Nil
  show ?case by (simp add: valid_records_Nil)
next
  case (Cons l ls)
  show ?case
    by (simp add: Cons.IH valid_records_Cons Let_def split: option.splits)
qed

lemma parse_cell_eq:
  "parse_cell t = (valid_records (cell_lines t), sum_list (map hours (valid_records (cell_lines t))))"
  by (simp add: parse_cell_def parse_lines_eq)

lemma valid_records_none:
  "\<forall>l \<in> set ls. parse_line (strip l) = None \<Longrightarrow> valid_records ls = []"
  by (induction ls) (simp_all add: valid_records_Nil valid_records_Cons)

lemma valid_records_append:
  "valid_records (xs @ ys) = valid_records xs @ valid_records ys"
  by (induction xs) (simp_all add: valid_records_Nil valid_records_Cons split: option.splits)

lemma split_on_nonempty: "split_on c s \<noteq> []"
  by (induction s) (simp_all split: list.split)

lemma join_split_on: "join c (split_on c s) = s"
proof (induction s)
  case Nil
  show ?case by simp
next
  case (Cons x xs)
  obtain f fs where sp: "split_on c xs = f # fs"
    using split_on_nonempty [of c xs] by (cases "split_on c xs") auto
  with Cons.IH show ?case by (cases fs) auto
qed

lemma split_on_fields: "f \<in> set (split_on c s) \<Longrightarrow> c \<notin> set f"
proof (induction s arbitrary: f)
  case Nil
  then show ?case by simp
next
  case (Cons x xs)
  obtain g gs where sp: "split_on c xs = g # gs"
    using split_on_nonempty [of c xs] by (cases "split_on c xs") auto
  with Cons show ?case by (auto split: if_splits)
qed


lemma concat_split_on: "concat (split_on c s) = filter (\<lambda>x. x \<noteq> c) s"
proof (induction s)
  case Nil
  show ?case by simp
next
  case (Cons x xs)
  obtain g gs where "split_on c xs = g # gs"
    using split_on_nonempty [of c xs] by (cases "split_on c xs") auto
  with Cons.IH show ?case by auto
qed

lemma py_digits_limit:
  assumes "int_max_str_digits < length (filter is_digit body)"
  shows "py_digits body = None"
proof (cases "list_all (\<lambda>g. g \<noteq> [] \<and> list_all is_digit g) (split_on (CHR ''_'') body)")
  case False
  then show ?thesis by (simp add: py_digits_def)
next
  case True
  then have "list_all is_digit (concat (split_on (CHR ''_'') body))"
    by (induction "split_on (CHR ''_'') body" arbitrary: body) (auto simp: list_all_iff)
  then have "filter is_digit (concat (split_on (CHR ''_'') body)) = concat (split_on (CHR ''_'') body)"
    by (simp add: list_all_iff)
  moreover have "filter is_digit (filter (\<lambda>x. x \<noteq> CHR ''_'') body) = filter is_digit body"
    by (induction body) (auto simp: is_digit_def)
  ultimately have "length (concat (split_on (CHR ''_'') body)) = length (filter is_digit body)"
    by (simp add: concat_split_on)
  with assms show ?thesis by (simp add: py_digits_def)
qed

text \<open>
  Claim C1. The classification of the text of a cell takes the first rule that
  matches: an empty text or the placeholder \<open>&nbsp;\<close> is NotRostered; otherwise a text
  whose lower-case form has \<open>not finalised\<close> as a substring is NotFinalized; otherwise
  the cell is Rostered with the records of the lines that parse and the sum of their
  hours. The lines are the pieces of the text between its line breaks, once the markup
  \<open><br/>\<close> has become a line break: joined by line breaks they give that text back,
  and none of them holds a line break. Lines that do not parse are left out one by
  one, and a cell none of whose lines parses is Rostered with no record.
\<close>

theorem classify_first_match:
  "classify t =
     (if t = [] \<or> t = ''&nbsp;'' then NotRostered
      else if (\<exists>pre post. lower t = pre @ ''not finalised'' @ post) then NotFinalized
      else Rostered (valid_records (cell_lines t))
             (sum_list (map hours (valid_records (cell_lines t)))))
   \<and> join (CHR 0x0A) (cell_lines t) = replace ''<br/>'' [CHR 0x0A] t
   \<and> (\<forall>l \<in> set (cell_lines t). CHR 0x0A \<notin> set l)
   \<and> ((\<forall>l \<in> set (cell_lines t). parse_line (strip l) = None) \<longrightarrow>
        valid_records (cell_lines t) = [])"
proof -
  have "classify t =
     (if t = [] \<or> t = ''&nbsp;'' then NotRostered
      else if (\<exists>pre post. lower t = pre @ ''not finalised'' @ post) then NotFinalized
      else Rostered (valid_records (cell_lines t))
             (sum_list (map hours (valid_records (cell_lines t)))))"
    unfolding classify_def contains_iff [symmetric] by (simp add: parse_cell_eq)
  moreover have "join (CHR 0x0A) (cell_lines t) = replace ''<br/>'' [CHR 0x0A] t"
    unfolding cell_lines_def by (rule join_split_on)
  moreover have "\<forall>l \<in> set (cell_lines t). CHR 0x0A \<notin> set l"
    unfolding cell_lines_def using split_on_fields by blast
  ultimately show ?thesis using valid_records_none by blast
qed

lemma example_cells:
  "strip [CHR 0xA0] = []"
  "classify ''D0600-1400 (8)<br/>see notice board\<newline> N0000-0600 (6) '' =
     Rostered [\<lparr>shift_type = ''D'', shift_start = 600, shift_end = 1400, hours = 8\<rparr>,
               \<lparr>shift_type = ''N'', shift_start = 0, shift_end = 600, hours = 6\<rparr>] 14"
  "cell_lines ''D0600-1400 (8)<br/>see notice board\<newline> N0000-0600 (6) '' =
     [''D0600-1400 (8)'', ''see notice board'', '' N0000-0600 (6) '']"
  "replace ''<br/>'' [CHR 0x0A] ''D0600-1400 (8)<br/>see notice board\<newline> N0000-0600 (6) '' =
     ''D0600-1400 (8)\<newline>see notice board\<newline> N0000-0600 (6) ''"
  "valid_records (cell_lines ''D0600-1400 (8)<br/>see notice board\<newline> N0000-0600 (6) '') =
     [\<lparr>shift_type = ''D'', shift_start = 600, shift_end = 1400, hours = 8\<rparr>,
      \<lparr>shift_type = ''N'', shift_start = 0, shift_end = 600, hours = 6\<rparr>]"
  "valid_records (cell_lines (''D0600-1400'' @ [CHR 0xA0] @ ''(8)'')) =
     [\<lparr>shift_type = ''D'', shift_start = 600, shift_end = 1400, hours = 8\<rparr>]"
  by code_simp+

theorem classify_first_match_witness:
  "classify (strip [CHR 0xA0]) = NotRostered
   \<and> classify ''&nbsp;'' = NotRostered
   \<and> classify ''Roster Not Finalised yet'' = NotFinalized
   \<and> classify ''D0600-1400 (8)<br/>see notice board\<newline> N0000-0600 (6) '' =
       Rostered [\<lparr>shift_type = ''D'', shift_start = 600, shift_end = 1400, hours = 8\<rparr>,
                 \<lparr>shift_type = ''N'', shift_start = 0, shift_end = 600, hours = 6\<rparr>] 14
   \<and> join (CHR 0x0A) [''D0600-1400 (8)'', ''see notice board'', '' N0000-0600 (6) ''] =
       ''D0600-1400 (8)\<newline>see notice board\<newline> N0000-0600 (6) ''
   \<and> classify (''D0600-1400'' @ [CHR 0xA0] @ ''(8)'') =
       Rostered [\<lparr>shift_type = ''D'', shift_start = 600, shift_end = 1400, hours = 8\<rparr>] 8
   \<and> classify ''see notice board'' = Rostered [] 0"
proof -
  let ?cell = "''D0600-1400 (8)<br/>see notice board\<newline> N0000-0600 (6) ''"
  have nf: "\<exists>pre post. lower ''Roster Not Finalised yet'' = pre @ ''not finalised'' @ post"
    unfolding contains_iff [symmetric] by code_simp
  have no1: "\<not> (\<exists>pre post. lower ?cell = pre @ ''not finalised'' @ post)"
    unfolding contains_iff [symmetric] by code_simp
  have no2: "\<not> (\<exists>pre post. lower ''see notice board'' = pre @ ''not finalised'' @ post)"
    unfolding contains_iff [symmetric] by code_simp
  have no3: "\<not> (\<exists>pre post. lower (''D0600-1400'' @ [CHR 0xA0] @ ''(8)'') =
      pre @ ''not finalised'' @ post)"
    unfolding contains_iff [symmetric] by code_simp
  have v2: "\<forall>l \<in> set (cell_lines ''see notice board''). parse_line (strip l) = None"
    by code_simp
  note c = classify_first_match
  have 1: "classify (strip [CHR 0xA0]) = NotRostered" "classify ''&nbsp;'' = NotRostered"
    using c [of "[]"] c [of "''&nbsp;''"] example_cells(1) by simp_all
  have 2: "classify ''Roster Not Finalised yet'' = NotFinalized"
    using c [of "''Roster Not Finalised yet''"] nf by simp
  have 3: "classify ?cell =
       Rostered [\<lparr>shift_type = ''D'', shift_start = 600, shift_end = 1400, hours = 8\<rparr>,
                 \<lparr>shift_type = ''N'', shift_start = 0, shift_end = 600, hours = 6\<rparr>] 14"
    using c [of ?cell] no1 example_cells(5) by simp
  have 4: "join (CHR 0x0A) [''D0600-1400 (8)'', ''see notice board'', '' N0000-0600 (6) ''] =
       ''D0600-1400 (8)\<newline>see notice board\<newline> N0000-0600 (6) ''"
    using c [of ?cell] example_cells(3,4) by simp
  have 5: "classify (''D0600-1400'' @ [CHR 0xA0] @ ''(8)'') =
       Rostered [\<lparr>shift_type = ''D'', shift_start = 600, shift_end = 1400, hours = 8\<rparr>] 8"
    using c [of "''D0600-1400'' @ [CHR 0xA0] @ ''(8)''"] no3 example_cells(6) by simp
  have 6: "classify ''see notice board'' = Rostered [] 0"
    using c [of "''see notice board''"] no2 v2 by simp
  from 1 2 3 4 5 6 show ?thesis by blast
qed

lemma parse_line_example:
  "parse_line ''D0600-1400 (8)'' =
     Some \<lparr>shift_type = ''D'', shift_start = 600, shift_end = 1400, hours = 8\<rparr>"
  by code_simp

text \<open>
  Claim C5. The line \<open>D0600-1400 (8)\<close> parses to the record with type \<open>D\<close>, start 600,
  end 1400 and 8 hours. For every cell the hours the loop adds up are the sum of the
  hours of the records it collected, which are the records of the lines that parse.
  A line that does not parse is skipped alone: the loop gives the same result as on
  the lines without it.
\<close>

theorem parse_cell_hours:
  "parse_line ''D0600-1400 (8)'' =
     Some \<lparr>shift_type = ''D'', shift_start = 600, shift_end = 1400, hours = 8\<rparr>
   \<and> snd (parse_cell cell_content) = sum_list (map hours (fst (parse_cell cell_content)))
   \<and> fst (parse_cell cell_content) = valid_records (cell_lines cell_content)
   \<and> (parse_line (strip l) = None \<longrightarrow>
        parse_lines (before @ l # after) [] 0 = parse_lines (before @ after) [] 0)"
proof -
  have "parse_line (strip l) = None \<Longrightarrow> valid_records [l] = []"
    by (simp add: valid_records_Cons valid_records_Nil)
  then have "parse_line (strip l) = None \<Longrightarrow>
      valid_records (before @ l # after) = valid_records (before @ after)"
    using valid_records_append [of before "[l] @ after"] valid_records_append [of "[l]" after]
      valid_records_append [of before after]
    by simp
  then show ?thesis
    by (simp add: parse_line_example parse_cell_eq parse_lines_eq)
qed

theorem parse_cell_hours_witness:
  "parse_line (strip ''N22-06 (x)'') = None
   \<and> parse_line ''D0_600-1400 (8)'' = None
   \<and> parse_cell (''D0600-1400'' @ [CHR 0xA0] @ ''(8)<br/>N22-06 (x)\<newline> M0000-0030 ( +1 ) '') =
       ([\<lparr>shift_type = ''D'', shift_start = 600, shift_end = 1400, hours = 8\<rparr>,
         \<lparr>shift_type = ''M'', shift_start = 0, shift_end = 30, hours = 1\<rparr>], 9)
   \<and> parse_lines ([''D0600-1400 (8)''] @ ''N22-06 (x)'' # [''A1400-2200 (7)'']) [] 0 =
       ([\<lparr>shift_type = ''D'', shift_start = 600, shift_end = 1400, hours = 8\<rparr>,
         \<lparr>shift_type = ''A'', shift_start = 1400, shift_end = 2200, hours = 7\<rparr>], 15)"
proof -
  let ?cell = "''D0600-1400'' @ [CHR 0xA0] @ ''(8)<br/>N22-06 (x)\<newline> M0000-0030 ( +1 ) ''"
  have a: "parse_line (strip ''N22-06 (x)'') = None" by code_simp
  have u: "parse_line ''D0_600-1400 (8)'' = None" by code_simp
  have b: "valid_records (cell_lines ?cell) =
       [\<lparr>shift_type = ''D'', shift_start = 600, shift_end = 1400, hours = 8\<rparr>,
        \<lparr>shift_type = ''M'', shift_start = 0, shift_end = 30, hours = 1\<rparr>]"
    by code_simp
  have c: "parse_lines ([''D0600-1400 (8)''] @ [''A1400-2200 (7)'']) [] 0 =
       ([\<lparr>shift_type = ''D'', shift_start = 600, shift_end = 1400, hours = 8\<rparr>,
         \<lparr>shift_type = ''A'', shift_start = 1400, shift_end = 2200, hours = 7\<rparr>], 15)"
    by code_simp
  note t = parse_cell_hours [of ?cell "''N22-06 (x)''" "[''D0600-1400 (8)'']" "[''A1400-2200 (7)'']"]
  have 2: "parse_cell ?cell =
       ([\<lparr>shift_type = ''D'', shift_start = 600, shift_end = 1400, hours = 8\<rparr>,
         \<lparr>shift_type = ''M'', shift_start = 0, shift_end = 30, hours = 1\<rparr>], 9)"
    using t b by (cases "parse_cell ?cell") simp
  have 3: "parse_lines ([''D0600-1400 (8)''] @ ''N22-06 (x)'' # [''A1400-2200 (7)'']) [] 0 =
       ([\<lparr>shift_type = ''D'', shift_start = 600, shift_end = 1400, hours = 8\<rparr>,
         \<lparr>shift_type = ''A'', shift_start = 1400, shift_end = 2200, hours = 7\<rparr>], 15)"
    using t a c by simp
  from a u 2 3 show ?thesis by blast
qed

lemma parse_line_Cons:
  "parse_line (c # rest) = map_option (\<lambda>r. r\<lparr>shift_type := [c]\<rparr>) (parse_line (c' # rest))"
proof (cases "unpack2 (split_on (CHR ''('') (strip rest))")
  case None
  then show ?thesis by (simp add: parse_line_def)
next
  case (Some p)
  obtain ts hs where p: "p = (ts, hs)" by (cases p)
  show ?thesis
  proof (cases "unpack2 (split_on (CHR ''-'') ts)")
    case None
    with Some p show ?thesis by (simp add: parse_line_def)
  next
    case inner: (Some q)
    obtain ss es where q: "q = (ss, es)" by (cases q)
    show ?thesis
    proof (cases "py_int (or_zero (lstrip_chars (CHR ''0'') ss))")
      case None
      with Some p inner q show ?thesis by (simp add: parse_line_def)
    next
      case s: (Some sv)
      show ?thesis
      proof (cases "py_int (or_zero (lstrip_chars (CHR ''0'') es))")
        case None
        with Some p inner q s show ?thesis by (simp add: parse_line_def)
      next
        case e: (Some ev)
        show ?thesis
        proof (cases "py_int (strip (replace '')'' [] hs))")
          case None
          with Some p inner q s e show ?thesis by (simp add: parse_line_def)
        next
          case h: (Some hv)
          with Some p inner q s e show ?thesis by (simp add: parse_line_def)
        qed
      qed
    qed
  qed
qed

lemma parse_line_type: "parse_line (c # rest) = Some r \<Longrightarrow> shift_type r = [c]"
proof -
  assume a: "parse_line (c # rest) = Some r"
  obtain r' where "r = r'\<lparr>shift_type := [c]\<rparr>"
    using a parse_line_Cons [of c rest c] by (cases "parse_line (c # rest)") auto
  then show ?thesis by simp
qed

text \<open>
  Claim C10. The first character of a line becomes the shift type without any check:
  whether a line parses, and its start, end and hours, depend on the rest of the line
  only, and the type of the record is the first character. So \<open>0600-1400 (8)\<close> parses,
  with type \<open>0\<close>, start 600 (read from \<open>600\<close>), end 1400 and 8 hours.
\<close>

theorem first_character_unchecked:
  "parse_line (c # rest) = map_option (\<lambda>r. r\<lparr>shift_type := [c]\<rparr>) (parse_line (c' # rest))
   \<and> (parse_line (c # rest) = Some r \<longrightarrow> shift_type r = [c])
   \<and> parse_line ''0600-1400 (8)'' =
       Some \<lparr>shift_type = ''0'', shift_start = 600, shift_end = 1400, hours = 8\<rparr>"
proof -
  have "parse_line ''0600-1400 (8)'' =
       Some \<lparr>shift_type = ''0'', shift_start = 600, shift_end = 1400, hours = 8\<rparr>"
    by code_simp
  moreover have "parse_line (c # rest) = Some r \<longrightarrow> shift_type r = [c]"
    using parse_line_type by blast
  ultimately show ?thesis
    using parse_line_Cons [of c rest c'] by simp
qed

theorem first_character_unchecked_witness:
  "parse_line ''0600-1400 (8)'' = Some \<lparr>shift_type = ''0'', shift_start = 600, shift_end = 1400, hours = 8\<rparr>
   \<and> shift_type \<lparr>shift_type = ''0'', shift_start = 600, shift_end = 1400, hours = 8\<rparr> = ''0''
   \<and> parse_line ''D600-1400 (8)'' =
       Some \<lparr>shift_type = ''D'', shift_start = 600, shift_end = 1400, hours = 8\<rparr>"
  using first_character_unchecked [of "CHR ''D''" "''600-1400 (8)''" "CHR ''0''"
      "\<lparr>shift_type = ''D'', shift_start = 600, shift_end = 1400, hours = 8\<rparr>"]
  by simp

section \<open>The Cell Locator\<close>

text \<open>
  Claim C6. For a month that the offset table has, the index of the cell is the offset
  of the month plus the day; for a month that the table lacks, it is the day.
\<close>

theorem cell_index_offset:
  "(offsets m = Some offset \<longrightarrow> cell_index offsets m d = offset + d)
   \<and> (offsets m = None \<longrightarrow> cell_index offsets m d = d)"
  by (simp add: cell_index_def)

theorem cell_index_offset_witness:
  "[10 \<mapsto> (2::int)] (10::int) = Some 2 \<and> cell_index [10 \<mapsto> 2] 10 4 = 2 + 4
   \<and> [10 \<mapsto> (2::int)] (11::int) = None \<and> cell_index [10 \<mapsto> 2] 11 4 = 4"
  using cell_index_offset [of "[10 \<mapsto> 2]" 10 2 4] cell_index_offset [of "[10 \<mapsto> 2]" 11 2 4]
  by simp


section \<open>The Date Planner\<close>

lemma month_cases:
  "1 \<le> m \<Longrightarrow> m \<le> 12 \<Longrightarrow>
   m = 1 \<or> m = 2 \<or> m = 3 \<or> m = 4 \<or> m = 5 \<or> m = 6 \<or> m = 7 \<or> m = 8 \<or> m = 9
   \<or> m = 10 \<or> m = 11 \<or> m = (12::int)"
  by arith

lemma month_table:
  assumes "1 \<le> m" "m \<le> 12"
  shows "0 \<le> DAYS_BEFORE_MONTH m
       \<and> 1 \<le> DAYS_IN_MONTH ! nat (m - 1)
       \<and> DAYS_BEFORE_MONTH m + DAYS_IN_MONTH ! nat (m - 1) \<le> (if m = 12 then 365 else 334)
       \<and> (m \<le> 2 \<longrightarrow> DAYS_BEFORE_MONTH m + DAYS_IN_MONTH ! nat (m - 1) \<le> 59)
       \<and> (m = 12 \<longrightarrow> DAYS_BEFORE_MONTH m = 334)"
  using month_cases [OF assms]
  apply (elim disjE)
  apply (simp_all add: DAYS_BEFORE_MONTH_def DAYS_IN_MONTH_def)
  done

lemma day_of_year_bounds:
  assumes "1 \<le> m" "m \<le> 12" "1 \<le> d" "d \<le> days_in_month y m"
  shows "1 \<le> days_before_month y m + d
     \<and> days_before_month y m + d \<le> (if is_leap y then 366 else 365)
     \<and> (\<not> is_leap y \<and> days_before_month y m + d = 365 \<longrightarrow> m = 12 \<and> d = 31)"
proof -
  note t = month_table [OF assms(1,2)]
  show ?thesis
  proof (cases "is_leap y")
    case True
    with t assms(3,4) show ?thesis
      by (simp add: days_before_month_def days_in_month_def split: if_splits)
  next
    case False
    with t assms(3,4) show ?thesis
      by (simp add: days_before_month_def days_in_month_def split: if_splits)
  qed
qed

lemma linear_year_bound:
  fixes a b c d :: int
  assumes "0 \<le> a" "a \<le> 9997" "c \<le> b" "0 \<le> d" "b \<le> 2499" "d \<le> 24" "0 \<le> c"
  shows "0 \<le> a * 365 + b - c + d \<and> a * 365 + b - c + d \<le> 3651428"
  using assms by linarith

lemma days_before_year_bounds:
  assumes "1 \<le> y" "y \<le> 9998"
  shows "0 \<le> days_before_year y" and "days_before_year y \<le> 3651428"
proof -
  define a where "a = y - 1"
  with assms have a: "0 \<le> a" "a \<le> 9997" by simp_all
  have 1: "a div 100 \<le> a div 4" using a(1) by (intro zdiv_mono2) simp_all
  have 2: "0 \<le> a div 400" "0 \<le> a div 100" using a(1) by (simp_all add: pos_imp_zdiv_nonneg_iff)
  have 3: "a div 4 \<le> 2499" using zdiv_mono1 [of a 9997 4] a(2) by simp
  have 4: "a div 400 \<le> 24" using zdiv_mono1 [of a 9997 400] a(2) by simp
  from linear_year_bound [OF a 1 2(1) 3 4 2(2)]
  show "0 \<le> days_before_year y" and "days_before_year y \<le> 3651428"
    by (simp_all add: days_before_year_def Let_def a_def)
qed

lemma days_before_year_9999: "days_before_year 9999 = 3651694"
  by (simp add: days_before_year_def Let_def)

lemma not_leap_9999: "\<not> is_leap 9999"
  by (simp add: is_leap_def)

lemma toordinal_bounds:
  assumes "valid_date (year dt) (month dt) (day dt)"
  shows "1 \<le> toordinal dt \<and> toordinal dt \<le> MAXORDINAL
     \<and> (toordinal dt = MAXORDINAL \<longrightarrow> dt = \<lparr>year = 9999, month = 12, day = 31\<rparr>)"
proof -
  from assms have v: "1 \<le> year dt" "year dt \<le> 9999" "1 \<le> month dt" "month dt \<le> 12"
    "1 \<le> day dt" "day dt \<le> days_in_month (year dt) (month dt)"
    by (simp_all add: valid_date_def)
  from day_of_year_bounds [OF v(3-6)]
  have doy: "1 \<le> days_before_month (year dt) (month dt) + day dt"
    "days_before_month (year dt) (month dt) + day dt \<le> (if is_leap (year dt) then 366 else 365)"
    "\<not> is_leap (year dt) \<Longrightarrow> days_before_month (year dt) (month dt) + day dt = 365
      \<Longrightarrow> month dt = 12 \<and> day dt = 31"
    by blast+
  show ?thesis
  proof (cases "year dt = 9999")
    case True
    with doy(1,2) not_leap_9999 days_before_year_9999
    have r: "1 \<le> toordinal dt" "toordinal dt \<le> MAXORDINAL"
      by (simp_all add: toordinal_def MAXORDINAL_def)
    have "dt = \<lparr>year = 9999, month = 12, day = 31\<rparr>" if "toordinal dt = MAXORDINAL"
    proof -
      from that True days_before_year_9999
      have "days_before_month (year dt) (month dt) + day dt = 365"
        by (simp add: toordinal_def MAXORDINAL_def)
      with doy(3) True not_leap_9999 have "month dt = 12 \<and> day dt = 31" by simp
      with True show ?thesis by simp
    qed
    with r show ?thesis by blast
  next
    case False
    with v have "year dt \<le> 9998" by simp
    from days_before_year_bounds [OF v(1) this] doy(1,2)
    have "1 \<le> toordinal dt \<and> toordinal dt < MAXORDINAL"
      by (simp add: toordinal_def MAXORDINAL_def split: if_splits)
    then show ?thesis by simp
  qed
qed

lemma toordinal_max: "toordinal \<lparr>year = 9999, month = 12, day = 31\<rparr> = MAXORDINAL"
  by (simp add: toordinal_def days_before_year_9999 days_before_month_def not_leap_9999
      DAYS_BEFORE_MONTH_def DAYS_IN_MONTH_def MAXORDINAL_def)

text \<open>
  Claim C7, as stated, fails at the last date of the calendar: 9999-12-31 is a valid
  date and a Friday, and the Date Planner raises OverflowError there instead of
  returning two dates.
\<close>

theorem get_test_dates_overflow:
  "valid_date 9999 12 31 \<and> weekday \<lparr>year = 9999, month = 12, day = 31\<rparr> = 4
   \<and> get_test_dates \<lparr>year = 9999, month = 12, day = 31\<rparr> = Inl (Uncaught ''OverflowError'')"
  by (simp add: get_test_dates_def weekday_def add_days_def toordinal_max Let_def
      valid_date_def days_in_month_def DAYS_IN_MONTH_def) (simp add: MAXORDINAL_def)

text \<open>
  Claim C7, amended. For every reference date that is a Friday, except 9999-12-31, the
  Date Planner returns exactly the next day and the day after it, in that order; for
  every reference date of another weekday it returns exactly the next day. The next
  days are those of the date arithmetic of the language, \<open>date + timedelta(days=n)\<close>.
\<close>

theorem get_test_dates_plan:
  assumes "valid_date (year dt) (month dt) (day dt)"
  shows "(weekday dt = 4 \<and> dt \<noteq> \<lparr>year = 9999, month = 12, day = 31\<rparr> \<longrightarrow>
            get_test_dates dt =
              Inr [fromordinal (toordinal dt + 1), fromordinal (toordinal dt + 2)])
       \<and> (weekday dt \<noteq> 4 \<longrightarrow> get_test_dates dt = Inr [fromordinal (toordinal dt + 1)])"
proof -
  from toordinal_bounds [OF assms]
  have lo: "1 \<le> toordinal dt" and hi: "toordinal dt \<le> MAXORDINAL"
    and top: "toordinal dt = MAXORDINAL \<Longrightarrow> dt = \<lparr>year = 9999, month = 12, day = 31\<rparr>"
    by simp_all
  have fri: "toordinal dt + 2 \<le> MAXORDINAL"
    if a: "weekday dt = 4" "dt \<noteq> \<lparr>year = 9999, month = 12, day = 31\<rparr>"
  proof -
    from a(2) top have "toordinal dt \<noteq> MAXORDINAL" by blast
    with a(1) hi show ?thesis
      unfolding weekday_def MAXORDINAL_def by arith
  qed
  have other: "toordinal dt + 1 \<le> MAXORDINAL" if "weekday dt \<noteq> 4"
    using that hi unfolding weekday_def MAXORDINAL_def by arith
  have "get_test_dates dt = Inr [fromordinal (toordinal dt + 1), fromordinal (toordinal dt + 2)]"
    if a: "weekday dt = 4" "dt \<noteq> \<lparr>year = 9999, month = 12, day = 31\<rparr>"
    using fri [OF a] lo a(1) by (simp add: get_test_dates_def add_days_def Let_def)
  moreover have "get_test_dates dt = Inr [fromordinal (toordinal dt + 1)]" if "weekday dt \<noteq> 4"
    using other [OF that] lo that by (simp add: get_test_dates_def add_days_def Let_def)
  ultimately show ?thesis by blast
qed

theorem get_test_dates_plan_witness:
  "valid_date 2024 10 4 \<and> weekday \<lparr>year = 2024, month = 10, day = 4\<rparr> = 4
   \<and> get_test_dates \<lparr>year = 2024, month = 10, day = 4\<rparr> =
        Inr [\<lparr>year = 2024, month = 10, day = 5\<rparr>, \<lparr>year = 2024, month = 10, day = 6\<rparr>]
   \<and> valid_date 2024 10 31 \<and> weekday \<lparr>year = 2024, month = 10, day = 31\<rparr> \<noteq> 4
   \<and> get_test_dates \<lparr>year = 2024, month = 10, day = 31\<rparr> =
        Inr [\<lparr>year = 2024, month = 11, day = 1\<rparr>]"
proof -
  have v: "valid_date 2024 10 4" "valid_date 2024 10 31" by code_simp+
  have w: "weekday \<lparr>year = 2024, month = 10, day = 4\<rparr> = 4"
    "weekday \<lparr>year = 2024, month = 10, day = 31\<rparr> \<noteq> 4" by code_simp+
  have f: "fromordinal (toordinal \<lparr>year = 2024, month = 10, day = 4\<rparr> + 1) = \<lparr>year = 2024, month = 10, day = 5\<rparr>"
    "fromordinal (toordinal \<lparr>year = 2024, month = 10, day = 4\<rparr> + 2) = \<lparr>year = 2024, month = 10, day = 6\<rparr>"
    "fromordinal (toordinal \<lparr>year = 2024, month = 10, day = 31\<rparr> + 1) = \<lparr>year = 2024, month = 11, day = 1\<rparr>"
    by code_simp+
  show ?thesis
    using v w f get_test_dates_plan [of "\<lparr>year = 2024, month = 10, day = 4\<rparr>"]
      get_test_dates_plan [of "\<lparr>year = 2024, month = 10, day = 31\<rparr>"]
    by simp
qed


section \<open>The retry loop\<close>

lemma emit_simps [simp]: "emit es (fs, r) = (es @ fs, r)"
  by (simp add: emit_def)

lemma main_loop_done:
  "\<not> k < limit \<Longrightarrow> main_loop cfg ss ds limit k = ([], None)"
  by (subst main_loop.simps) simp

lemma main_loop_setup_failed:
  "k < limit \<Longrightarrow> webdriver (ss k) = Raised e \<Longrightarrow>
   main_loop cfg ss ds limit k = ([SetupWebdriver], Some (Uncaught e))"
  by (subst main_loop.simps) simp

lemma main_loop_auth_timeout:
  "k < limit \<Longrightarrow> webdriver (ss k) = Ok u \<Longrightarrow> attempt cfg (ss k) ds = (es, AuthTimeout) \<Longrightarrow>
   main_loop cfg ss ds limit k = (SetupWebdriver # es, Some (SysExit 1))"
  by (subst main_loop.simps) simp

lemma main_loop_crashed:
  "k < limit \<Longrightarrow> webdriver (ss k) = Ok u \<Longrightarrow> attempt cfg (ss k) ds = (es, Crashed e) \<Longrightarrow>
   main_loop cfg ss ds limit k =
     (SetupWebdriver # es @
        [DriverQuit,
         SendSms (''Script encountered an error: '' @ e) [recipient_self cfg, recipient_wife cfg],
         LogMessage ''ERROR'' ''UNEXPECTED_ERROR'' (''Script encountered an error: '' @ e)
           [] [] 0 0 0 (int k)],
      Some (SysExit 1))"
  by (subst main_loop.simps) simp

lemma main_loop_retry:
  "Suc k < limit \<Longrightarrow> webdriver (ss k) = Ok u \<Longrightarrow>
   attempt cfg (ss k) ds = (es, Scraped m True) \<Longrightarrow>
   main_loop cfg ss ds limit k =
     emit (SetupWebdriver # es @ [Sleep retry_delay]) (main_loop cfg ss ds limit (Suc k))"
  by (subst main_loop.simps) (simp add: emit_def)

lemma main_loop_exhausted:
  "k < limit \<Longrightarrow> \<not> Suc k < limit \<Longrightarrow> webdriver (ss k) = Ok u \<Longrightarrow>
   attempt cfg (ss k) ds = (es, Scraped m True) \<Longrightarrow>
   main_loop cfg ss ds limit k =
     (SetupWebdriver # es @
        [LogMessage ''ERROR'' ''RETRY_LIMIT_REACHED'' (retry_limit_message limit) [] [] 0 0 0
           (int (Suc k)),
         SendSms (retry_limit_message limit) [recipient_self cfg, recipient_wife cfg]],
      Some (SysExit 1))"
  by (subst main_loop.simps) simp

lemma main_loop_success:
  "k < limit \<Longrightarrow> webdriver (ss k) = Ok u \<Longrightarrow>
   attempt cfg (ss k) ds = (es, Scraped m False) \<Longrightarrow>
   main_loop cfg ss ds limit k =
     (SetupWebdriver # es @
        (if strip m \<noteq> [] then [SendSms (strip m) (recipients cfg (current_day (ss k)))] else []),
      None)"
  by (subst main_loop.simps) simp


lemma process_cell_events:
  "(case process_cell d c flt of
      Continue added es \<Rightarrow> list_all is_scrape_event es
    | Break added es \<Rightarrow> list_all is_scrape_event es
    | Raise e \<Rightarrow> True)"
  by (simp add: process_cell_def Let_def split: day_outcome.split fault.split)

lemma process_date_events:
  "(case process_date cfg view d of
      Continue added es \<Rightarrow> list_all is_scrape_event es
    | Break added es \<Rightarrow> list_all is_scrape_event es
    | Raise e \<Rightarrow> True)"
  using process_cell_events
  by (simp add: process_date_def split: returned.split waited.split)

lemma process_roster_events:
  "list_all is_scrape_event (fst (process_roster cfg vs i ds m))"
proof (induction ds arbitrary: i m)
  case Nil
  show ?case by simp
next
  case (Cons d ds)
  show ?case
    using process_date_events [of cfg "vs i" d] Cons.IH
    by (cases "process_date cfg (vs i) d") (simp_all add: emit_def)
qed

lemma attempt_events: "list_all is_scrape_event (fst (attempt cfg s ds))"
proof -
  obtain es r where pr: "process_roster cfg (views s) 0 ds [] = (es, r)"
    by (cases "process_roster cfg (views s) 0 ds []")
  with process_roster_events [of cfg "views s" 0 ds "[]"] have "list_all is_scrape_event es"
    by simp
  with pr show ?thesis
    by (simp add: attempt_def split: returned.split waited.split sum.split prod.split)
qed

lemma scrape_events_silent:
  "list_all is_scrape_event es \<Longrightarrow> sms_sent es = [] \<and> attempts_started es = 0"
proof (induction es)
  case Nil
  show ?case by (simp add: sms_sent_def attempts_started_def)
next
  case (Cons e es)
  then show ?case by (cases e) (simp_all add: sms_sent_def attempts_started_def)
qed

lemma attempt_silent:
  "attempt cfg s ds = (es, r) \<Longrightarrow> sms_sent es = [] \<and> attempts_started es = 0"
  using attempt_events [of cfg s ds] scrape_events_silent [of es] by simp

lemma sms_sent_append [simp]: "sms_sent (xs @ ys) = sms_sent xs @ sms_sent ys"
  by (simp add: sms_sent_def)

lemma attempts_started_append [simp]:
  "attempts_started (xs @ ys) = attempts_started xs + attempts_started ys"
  by (simp add: attempts_started_def)

lemma sms_sent_Cons [simp]: "sms_sent (e # es) = (if is_sms e then e # sms_sent es else sms_sent es)"
  by (simp add: sms_sent_def)

lemma sms_sent_Nil [simp]: "sms_sent [] = []"
  by (simp add: sms_sent_def)

lemma attempts_started_Cons [simp]:
  "attempts_started (e # es) = (if e = SetupWebdriver then Suc (attempts_started es) else attempts_started es)"
  by (simp add: attempts_started_def)

lemma attempts_started_Nil [simp]: "attempts_started [] = 0"
  by (simp add: attempts_started_def)

lemma not_finalised_attemptD:
  assumes "not_finalised_attempt cfg s ds"
  obtains es m where "webdriver s = Ok ()" "attempt cfg s ds = (es, Scraped m True)"
proof -
  obtain es r where a: "attempt cfg s ds = (es, r)" by (cases "attempt cfg s ds")
  with assms obtain m where "r = Scraped m True"
    by (cases r) (simp_all add: not_finalised_attempt_def)
  with a assms that show ?thesis by (simp add: not_finalised_attempt_def)
qed

lemma successful_attemptD:
  assumes "successful_attempt cfg s ds"
  obtains es where "webdriver s = Ok ()"
    "attempt cfg s ds = (es, Scraped (combined_message_of cfg s ds) False)"
proof -
  obtain es r where a: "attempt cfg s ds = (es, r)" by (cases "attempt cfg s ds")
  with assms obtain m where "r = Scraped m False"
    by (cases r) (simp_all add: successful_attempt_def)
  with a assms that show ?thesis by (simp add: successful_attempt_def combined_message_of_def)
qed

lemma exhausted_run:
  assumes "\<forall>i. k \<le> i \<and> i < limit \<longrightarrow> not_finalised_attempt cfg (ss i) ds" and "k < limit"
  shows "\<exists>pre. main_loop cfg ss ds limit k =
           (pre @ [LogMessage ''ERROR'' ''RETRY_LIMIT_REACHED'' (retry_limit_message limit)
                     [] [] 0 0 0 (int limit),
                   SendSms (retry_limit_message limit) [recipient_self cfg, recipient_wife cfg]],
            Some (SysExit 1))
         \<and> sms_sent pre = [] \<and> attempts_started pre = limit - k"
  using assms
proof (induction "limit - k" arbitrary: k)
  case 0
  then show ?case by simp
next
  case (Suc n)
  from Suc.prems have "not_finalised_attempt cfg (ss k) ds" by simp
  then obtain es m where w: "webdriver (ss k) = Ok ()"
    and a: "attempt cfg (ss k) ds = (es, Scraped m True)"
    by (rule not_finalised_attemptD)
  note quiet = attempt_silent [OF a]
  show ?case
  proof (cases "Suc k < limit")
    case False
    with Suc.prems have lim: "limit = Suc k" by simp
    have "main_loop cfg ss ds limit k =
        ((SetupWebdriver # es) @ [LogMessage ''ERROR'' ''RETRY_LIMIT_REACHED''
               (retry_limit_message limit) [] [] 0 0 0 (int limit),
             SendSms (retry_limit_message limit) [recipient_self cfg, recipient_wife cfg]],
         Some (SysExit 1))"
      using main_loop_exhausted [where ss = ss and k = k, OF Suc.prems(2) False w a] lim by simp
    moreover have "sms_sent (SetupWebdriver # es) = []
        \<and> attempts_started (SetupWebdriver # es) = limit - k"
      using quiet lim by simp
    ultimately show ?thesis by blast
  next
    case True
    from Suc.hyps(2) True have "n = limit - Suc k" by simp
    moreover from Suc.prems(1)
    have "\<forall>i. Suc k \<le> i \<and> i < limit \<longrightarrow> not_finalised_attempt cfg (ss i) ds" by simp
    ultimately obtain pre where
      run: "main_loop cfg ss ds limit (Suc k) =
           (pre @ [LogMessage ''ERROR'' ''RETRY_LIMIT_REACHED'' (retry_limit_message limit)
                     [] [] 0 0 0 (int limit),
                   SendSms (retry_limit_message limit) [recipient_self cfg, recipient_wife cfg]],
            Some (SysExit 1))"
      and pre: "sms_sent pre = []" "attempts_started pre = limit - Suc k"
      using Suc.hyps(1) [of "Suc k"] True by blast
    have "main_loop cfg ss ds limit k =
        ((SetupWebdriver # es @ [Sleep retry_delay] @ pre)
           @ [LogMessage ''ERROR'' ''RETRY_LIMIT_REACHED'' (retry_limit_message limit)
                     [] [] 0 0 0 (int limit),
              SendSms (retry_limit_message limit) [recipient_self cfg, recipient_wife cfg]],
         Some (SysExit 1))"
      using main_loop_retry [where ss = ss and k = k, OF True w a] run by simp
    moreover have "sms_sent (SetupWebdriver # es @ [Sleep retry_delay] @ pre) = []
        \<and> attempts_started (SetupWebdriver # es @ [Sleep retry_delay] @ pre) = limit - k"
      using quiet pre True by simp
    ultimately show ?thesis by blast
  qed
qed

lemma success_run:
  assumes "\<forall>i. k \<le> i \<and> i < j \<longrightarrow> not_finalised_attempt cfg (ss i) ds"
    and "successful_attempt cfg (ss j) ds" and "k \<le> j" and "j < limit"
  shows "snd (main_loop cfg ss ds limit k) = None
       \<and> sms_sent (fst (main_loop cfg ss ds limit k)) =
           (if strip (combined_message_of cfg (ss j) ds) \<noteq> []
            then [SendSms (strip (combined_message_of cfg (ss j) ds))
                    (recipients cfg (current_day (ss j)))]
            else [])
       \<and> attempts_started (fst (main_loop cfg ss ds limit k)) = Suc j - k"
  using assms
proof (induction "j - k" arbitrary: k)
  case 0
  then have kj: "k = j" by simp
  from "0.prems"(2) obtain es where w: "webdriver (ss j) = Ok ()"
    and a: "attempt cfg (ss j) ds = (es, Scraped (combined_message_of cfg (ss j) ds) False)"
    by (rule successful_attemptD)
  from main_loop_success [where ss = ss and k = j, OF "0.prems"(4) w a] attempt_silent [OF a] kj
  show ?case by simp
next
  case (Suc n)
  then have lt: "k < j" by simp
  with Suc.prems have "not_finalised_attempt cfg (ss k) ds" by simp
  then obtain es m where w: "webdriver (ss k) = Ok ()"
    and a: "attempt cfg (ss k) ds = (es, Scraped m True)"
    by (rule not_finalised_attemptD)
  from lt Suc.prems(4) have next_ok: "Suc k < limit" by simp
  from Suc.hyps(2) have "n = j - Suc k" by simp
  moreover from Suc.prems(1)
  have "\<forall>i. Suc k \<le> i \<and> i < j \<longrightarrow> not_finalised_attempt cfg (ss i) ds" by simp
  moreover from lt have "Suc k \<le> j" by simp
  ultimately have ih: "snd (main_loop cfg ss ds limit (Suc k)) = None
       \<and> sms_sent (fst (main_loop cfg ss ds limit (Suc k))) =
           (if strip (combined_message_of cfg (ss j) ds) \<noteq> []
            then [SendSms (strip (combined_message_of cfg (ss j) ds))
                    (recipients cfg (current_day (ss j)))]
            else [])
       \<and> attempts_started (fst (main_loop cfg ss ds limit (Suc k))) = Suc j - Suc k"
    using Suc.hyps(1) [of "Suc k"] Suc.prems(2,4) by blast
  from main_loop_retry [where ss = ss and k = k, OF next_ok w a] ih attempt_silent [OF a] lt
  show ?case by (simp add: emit_def Suc_diff_le)
qed

section \<open>Evaluating the example runs\<close>

lemma example_dates:
  "month_year_text saturday = ''October 2024''" "month_year_text sunday = ''October 2024''"
  "day_text saturday = ''(Saturday) 5/10/2024''" "day_text sunday = ''(Sunday) 6/10/2024''"
  "weekday_name saturday = ''Saturday''" "weekday_name sunday = ''Sunday''"
  "iso_text saturday = ''2024-10-05''" "iso_text sunday = ''2024-10-06''"
  by code_simp+

lemma example_isoformat: "isoformat saturday = ''2024-10-05''"
  by code_simp

lemma example_texts:
  "strip ''October 2024'' = ''October 2024''"
  "strip ''D0600-1400 (8)'' = ''D0600-1400 (8)''"
  "strip ''Not finalised'' = ''Not finalised''"
  "classify ''D0600-1400 (8)'' =
     Rostered [\<lparr>shift_type = ''D'', shift_start = 600, shift_end = 1400, hours = 8\<rparr>] 8"
  "classify ''Not finalised'' = NotFinalized"
  by code_simp+

lemma process_date_cell_view:
  "month_year_text d = ''October 2024'' \<Longrightarrow>
   process_date cfg ((cell_view t)\<lparr>shift_fault := flt\<rparr>) d = process_cell d (strip t) flt"
  "month_year_text d = ''October 2024'' \<Longrightarrow>
   process_date cfg (cell_view t) d = process_cell d (strip t) NoFault"
  by (simp_all add: process_date_def cell_view_def every_def example_texts)

lemma attempt_browsing:
  "attempt cfg (browsing vs) ds =
     (case process_roster cfg vs 0 ds [] of
        (es, Inl e) \<Rightarrow> (DriverGet # es, Crashed e)
      | (es, Inr (m, flag)) \<Rightarrow> (DriverGet # es @ [DriverQuit], Scraped m flag))"
  by (simp add: attempt_def browsing_def split: prod.split sum.split)

lemma rostered_saturday:
  "process_cell saturday ''D0600-1400 (8)'' NoFault =
     Continue (''Hours for (Saturday) 5/10/2024 are: D0600-1400 (8) (c) Bsecurity'' @ [CHR 0x0A])
       [LogMessage ''INFO'' ''SMS_SENT''
          ''Hours for (Saturday) 5/10/2024 are: D0600-1400 (8) (c) Bsecurity''
          ''Saturday'' ''2024-10-05'' 600 1400 8 0]"
  by (simp add: process_cell_def example_texts example_dates)

lemma not_finalised_saturday:
  "process_cell saturday ''Not finalised'' NoFault =
     Break (''Not finalised for (Saturday) 5/10/2024.'' @ [CHR 0x0A])
       [LogMessage ''WARNING'' ''SHIFT_NOT_FINALISED'' ''Not finalised for (Saturday) 5/10/2024.''
          ''Saturday'' ''2024-10-05'' 0 0 0 0]"
  by (simp add: process_cell_def example_texts example_dates)

lemma rostered_attempt:
  "attempt example_config (browsing (every (cell_view ''D0600-1400 (8)''))) [saturday] =
     ([DriverGet,
       LogMessage ''INFO'' ''SMS_SENT''
          ''Hours for (Saturday) 5/10/2024 are: D0600-1400 (8) (c) Bsecurity''
          ''Saturday'' ''2024-10-05'' 600 1400 8 0,
       DriverQuit],
      Scraped (''Hours for (Saturday) 5/10/2024 are: D0600-1400 (8) (c) Bsecurity'' @ [CHR 0x0A])
        False)"
  by (simp add: attempt_browsing every_def process_date_cell_view example_dates example_texts
      rostered_saturday)

lemma not_finalised_attempt_example:
  "attempt example_config (browsing (every (cell_view ''Not finalised''))) [saturday, sunday] =
     ([DriverGet,
       LogMessage ''WARNING'' ''SHIFT_NOT_FINALISED'' ''Not finalised for (Saturday) 5/10/2024.''
          ''Saturday'' ''2024-10-05'' 0 0 0 0,
       DriverQuit],
      Scraped (''Not finalised for (Saturday) 5/10/2024.'' @ [CHR 0x0A]) True)"
  by (simp add: attempt_browsing every_def process_date_cell_view example_dates example_texts
      not_finalised_saturday)


section \<open>Recipient routing\<close>

lemma recipients_cases:
  "recipients cfg today_name =
     (if today_name \<in> set (MUM_SEND_DAYS cfg)
      then [recipient_self cfg, recipient_wife cfg, recipient_mum cfg]
      else [recipient_self cfg, recipient_wife cfg])"
  by (simp add: recipients_def)

text \<open>
  Claim C8. When an attempt succeeds and the accumulated message is not blank, the run
  sends exactly one message, to the recipients chosen from the weekday of today: the
  primary, the secondary and the tertiary recipient, three in all, when that weekday
  is among the configured days of the tertiary recipient, and the primary and the
  secondary recipient, two in all, on any other weekday.
\<close>

theorem success_recipients:
  assumes "k < limit" and "successful_attempt cfg (ss k) ds"
    and "strip (combined_message_of cfg (ss k) ds) \<noteq> []"
  shows "sms_sent (fst (main_loop cfg ss ds limit k)) =
           [SendSms (strip (combined_message_of cfg (ss k) ds))
              (recipients cfg (current_day (ss k)))]
       \<and> recipients cfg (current_day (ss k)) =
           (if current_day (ss k) \<in> set (MUM_SEND_DAYS cfg)
            then [recipient_self cfg, recipient_wife cfg, recipient_mum cfg]
            else [recipient_self cfg, recipient_wife cfg])
       \<and> length (recipients cfg (current_day (ss k))) =
           (if current_day (ss k) \<in> set (MUM_SEND_DAYS cfg) then 3 else 2)"
proof -
  have "\<forall>i. k \<le> i \<and> i < k \<longrightarrow> not_finalised_attempt cfg (ss i) ds" by auto
  from success_run [OF this assms(2) le_refl assms(1)] assms(3)
  show ?thesis by (simp add: recipients_cases)
qed

lemma rostered_message:
  "strip (''Hours for (Saturday) 5/10/2024 are: D0600-1400 (8) (c) Bsecurity'' @ [CHR 0x0A]) =
     ''Hours for (Saturday) 5/10/2024 are: D0600-1400 (8) (c) Bsecurity''"
  by code_simp

lemma example_recipients:
  "recipients example_config ''wed'' = [''+1234567890'', ''+0987654321'', ''+1122334455'']"
  "recipients example_config ''fri'' = [''+1234567890'', ''+0987654321'']"
  by code_simp+

lemma attempt_current_day:
  "attempt cfg (s\<lparr>current_day := c\<rparr>) ds = attempt cfg s ds"
  by (simp add: attempt_def split: returned.split waited.split)

theorem success_recipients_witness:
  "sms_sent (fst (main_loop example_config
       (every (browsing (every (cell_view ''D0600-1400 (8)'')))) [saturday] max_retries 0)) =
     [SendSms ''Hours for (Saturday) 5/10/2024 are: D0600-1400 (8) (c) Bsecurity''
        [''+1234567890'', ''+0987654321'', ''+1122334455'']]
   \<and> sms_sent (fst (main_loop example_config
       (every ((browsing (every (cell_view ''D0600-1400 (8)'')))\<lparr>current_day := ''fri''\<rparr>))
       [saturday] max_retries 0)) =
     [SendSms ''Hours for (Saturday) 5/10/2024 are: D0600-1400 (8) (c) Bsecurity''
        [''+1234567890'', ''+0987654321'']]"
proof -
  let ?s = "browsing (every (cell_view ''D0600-1400 (8)''))"
  have a: "successful_attempt example_config ?s [saturday]"
    "successful_attempt example_config (?s\<lparr>current_day := ''fri''\<rparr>) [saturday]"
    by (simp_all add: successful_attempt_def attempt_current_day rostered_attempt)
      (simp_all add: browsing_def)
  have m: "combined_message_of example_config ?s [saturday] =
        ''Hours for (Saturday) 5/10/2024 are: D0600-1400 (8) (c) Bsecurity'' @ [CHR 0x0A]"
    "combined_message_of example_config (?s\<lparr>current_day := ''fri''\<rparr>) [saturday] =
        ''Hours for (Saturday) 5/10/2024 are: D0600-1400 (8) (c) Bsecurity'' @ [CHR 0x0A]"
    by (simp_all add: combined_message_of_def attempt_current_day rostered_attempt)
  have c: "current_day ?s = ''wed''" by (simp add: browsing_def)
  have lim: "0 < max_retries" by (simp add: max_retries_def)
  from success_recipients [of 0 max_retries example_config "every ?s" "[saturday]"]
    success_recipients [of 0 max_retries example_config
      "every (?s\<lparr>current_day := ''fri''\<rparr>)" "[saturday]"]
    a m c lim rostered_message example_recipients
  show ?thesis by (simp add: every_def)
qed


section \<open>The retry state machine\<close>

lemma process_roster_break:
  assumes "label_text (vs i) = Ok cur"
    and "strip cur = month_year_text d \<or> navigation (vs i) = Found ()"
    and "cell (vs i) (date_cell_id (cell_index (month_offsets cfg) (month d) (day d))) = Found t"
    and "classify (strip t) = NotFinalized"
  shows "process_roster cfg vs i (d # rest) msg =
     ([LogMessage ''WARNING'' ''SHIFT_NOT_FINALISED'' (''Not finalised for '' @ day_text d @ ''.'')
         (weekday_name d) (iso_text d) 0 0 0 0],
      Inr (msg @ ''Not finalised for '' @ day_text d @ ''.'' @ [CHR 0x0A], True))"
proof -
  have "process_date cfg (vs i) d =
      Break ((''Not finalised for '' @ day_text d @ ''.'') @ [CHR 0x0A])
        [LogMessage ''WARNING'' ''SHIFT_NOT_FINALISED'' (''Not finalised for '' @ day_text d @ ''.'')
           (weekday_name d) (iso_text d) 0 0 0 0]"
    using assms by (auto simp: process_date_def process_cell_def Let_def)
  then show ?thesis by simp
qed

text \<open>
  Claim C2. With a retry limit \<open>N\<close>: when the cell of a date classifies as
  NotFinalized, \<open>process_roster\<close> returns at once with the flag set, whatever dates
  remain, so that the attempt asks for a retry. When each of the \<open>N\<close> attempts finds
  the roster not finalised, the run logs RETRY_LIMIT_REACHED with \<open>retry_attempts = N\<close>,
  sends the failure notification, the only message of the run, after \<open>N\<close> attempts, and
  exits with status 1. When the attempts before attempt \<open>j + 1 \<le> N\<close> find the roster
  not finalised and that attempt succeeds, the run ends normally after \<open>j + 1\<close>
  attempts, with one decision about the notification: one message when the combined
  message is not blank, none otherwise.
\<close>

theorem retry_state_machine:
  "(label_text (vs i) = Ok cur
      \<and> (strip cur = month_year_text d \<or> navigation (vs i) = Found ())
      \<and> cell (vs i) (date_cell_id (cell_index (month_offsets cfg) (month d) (day d))) = Found t
      \<and> classify (strip t) = NotFinalized
    \<longrightarrow> process_roster cfg vs i (d # rest) msg =
          ([LogMessage ''WARNING'' ''SHIFT_NOT_FINALISED''
              (''Not finalised for '' @ day_text d @ ''.'') (weekday_name d) (iso_text d) 0 0 0 0],
           Inr (msg @ ''Not finalised for '' @ day_text d @ ''.'' @ [CHR 0x0A], True)))
   \<and> (0 < N \<and> (\<forall>i<N. not_finalised_attempt cfg (ss i) ds)
    \<longrightarrow> (\<exists>pre. main_loop cfg ss ds N 0 =
            (pre @ [LogMessage ''ERROR'' ''RETRY_LIMIT_REACHED'' (retry_limit_message N)
                      [] [] 0 0 0 (int N),
                    SendSms (retry_limit_message N) [recipient_self cfg, recipient_wife cfg]],
             Some (SysExit 1))
          \<and> sms_sent pre = [] \<and> attempts_started pre = N))
   \<and> (j < N \<and> (\<forall>i<j. not_finalised_attempt cfg (ss i) ds) \<and> successful_attempt cfg (ss j) ds
    \<longrightarrow> snd (main_loop cfg ss ds N 0) = None
        \<and> sms_sent (fst (main_loop cfg ss ds N 0)) =
            (if strip (combined_message_of cfg (ss j) ds) \<noteq> []
             then [SendSms (strip (combined_message_of cfg (ss j) ds))
                     (recipients cfg (current_day (ss j)))]
             else [])
        \<and> attempts_started (fst (main_loop cfg ss ds N 0)) = Suc j)"
proof (intro conjI impI)
  assume "label_text (vs i) = Ok cur
      \<and> (strip cur = month_year_text d \<or> navigation (vs i) = Found ())
      \<and> cell (vs i) (date_cell_id (cell_index (month_offsets cfg) (month d) (day d))) = Found t
      \<and> classify (strip t) = NotFinalized"
  then show "process_roster cfg vs i (d # rest) msg =
          ([LogMessage ''WARNING'' ''SHIFT_NOT_FINALISED''
              (''Not finalised for '' @ day_text d @ ''.'') (weekday_name d) (iso_text d) 0 0 0 0],
           Inr (msg @ ''Not finalised for '' @ day_text d @ ''.'' @ [CHR 0x0A], True))"
    using process_roster_break by blast
next
  assume a: "0 < N \<and> (\<forall>i<N. not_finalised_attempt cfg (ss i) ds)"
  then have "\<forall>i. 0 \<le> i \<and> i < N \<longrightarrow> not_finalised_attempt cfg (ss i) ds" by simp
  from exhausted_run [OF this] a
  show "\<exists>pre. main_loop cfg ss ds N 0 =
            (pre @ [LogMessage ''ERROR'' ''RETRY_LIMIT_REACHED'' (retry_limit_message N)
                      [] [] 0 0 0 (int N),
                    SendSms (retry_limit_message N) [recipient_self cfg, recipient_wife cfg]],
             Some (SysExit 1))
          \<and> sms_sent pre = [] \<and> attempts_started pre = N"
    by simp
next
  assume a: "j < N \<and> (\<forall>i<j. not_finalised_attempt cfg (ss i) ds)
      \<and> successful_attempt cfg (ss j) ds"
  then have "\<forall>i. 0 \<le> i \<and> i < j \<longrightarrow> not_finalised_attempt cfg (ss i) ds" by simp
  from success_run [OF this, of N] a
  have r: "snd (main_loop cfg ss ds N 0) = None
       \<and> sms_sent (fst (main_loop cfg ss ds N 0)) =
           (if strip (combined_message_of cfg (ss j) ds) \<noteq> []
            then [SendSms (strip (combined_message_of cfg (ss j) ds))
                    (recipients cfg (current_day (ss j)))]
            else [])
       \<and> attempts_started (fst (main_loop cfg ss ds N 0)) = Suc j - 0"
    by simp
  from r show "snd (main_loop cfg ss ds N 0) = None" by simp
  from r show "sms_sent (fst (main_loop cfg ss ds N 0)) =
            (if strip (combined_message_of cfg (ss j) ds) \<noteq> []
             then [SendSms (strip (combined_message_of cfg (ss j) ds))
                     (recipients cfg (current_day (ss j)))]
             else [])" by simp
  from r show "attempts_started (fst (main_loop cfg ss ds N 0)) = Suc j" by simp
qed

lemma not_finalised_example:
  "not_finalised_attempt example_config (browsing (every (cell_view ''Not finalised'')))
     [saturday, sunday]"
  by (simp add: not_finalised_attempt_def not_finalised_attempt_example) (simp add: browsing_def)

lemma rostered_sunday:
  "process_cell sunday ''D0600-1400 (8)'' NoFault =
     Continue (''Hours for (Sunday) 6/10/2024 are: D0600-1400 (8) (c) Bsecurity'' @ [CHR 0x0A])
       [LogMessage ''INFO'' ''SMS_SENT''
          ''Hours for (Sunday) 6/10/2024 are: D0600-1400 (8) (c) Bsecurity''
          ''Sunday'' ''2024-10-06'' 600 1400 8 0]"
  by (simp add: process_cell_def example_texts example_dates)

lemma rostered_weekend_attempt:
  "attempt example_config (browsing (every (cell_view ''D0600-1400 (8)''))) [saturday, sunday] =
     ([DriverGet,
       LogMessage ''INFO'' ''SMS_SENT''
          ''Hours for (Saturday) 5/10/2024 are: D0600-1400 (8) (c) Bsecurity''
          ''Saturday'' ''2024-10-05'' 600 1400 8 0,
       LogMessage ''INFO'' ''SMS_SENT''
          ''Hours for (Sunday) 6/10/2024 are: D0600-1400 (8) (c) Bsecurity''
          ''Sunday'' ''2024-10-06'' 600 1400 8 0,
       DriverQuit],
      Scraped (''Hours for (Saturday) 5/10/2024 are: D0600-1400 (8) (c) Bsecurity'' @ [CHR 0x0A]
               @ ''Hours for (Sunday) 6/10/2024 are: D0600-1400 (8) (c) Bsecurity'' @ [CHR 0x0A])
        False)"
  by (simp add: attempt_browsing every_def process_date_cell_view example_dates example_texts
      rostered_saturday rostered_sunday)

lemma weekend_message:
  "strip (''Hours for (Saturday) 5/10/2024 are: D0600-1400 (8) (c) Bsecurity'' @ [CHR 0x0A]
          @ ''Hours for (Sunday) 6/10/2024 are: D0600-1400 (8) (c) Bsecurity'' @ [CHR 0x0A]) =
   ''Hours for (Saturday) 5/10/2024 are: D0600-1400 (8) (c) Bsecurity'' @ [CHR 0x0A]
          @ ''Hours for (Sunday) 6/10/2024 are: D0600-1400 (8) (c) Bsecurity''"
  by code_simp

theorem retry_state_machine_witness:
  "process_roster example_config (every (cell_view ''Not finalised'')) 0 (saturday # [sunday]) [] =
     ([LogMessage ''WARNING'' ''SHIFT_NOT_FINALISED'' ''Not finalised for (Saturday) 5/10/2024.''
         ''Saturday'' ''2024-10-05'' 0 0 0 0],
      Inr (''Not finalised for (Saturday) 5/10/2024.'' @ [CHR 0x0A], True))
   \<and> (\<exists>pre. main_loop example_config (every (browsing (every (cell_view ''Not finalised''))))
          [saturday, sunday] 3 0 =
            (pre @ [LogMessage ''ERROR'' ''RETRY_LIMIT_REACHED'' (retry_limit_message 3)
                      [] [] 0 0 0 3,
                    SendSms (retry_limit_message 3) [''+1234567890'', ''+0987654321'']],
             Some (SysExit 1))
          \<and> sms_sent pre = [] \<and> attempts_started pre = 3)
   \<and> snd (main_loop example_config
        (first_then 1 (browsing (every (cell_view ''Not finalised'')))
           (browsing (every (cell_view ''D0600-1400 (8)''))))
        [saturday, sunday] 3 0) = None
   \<and> sms_sent (fst (main_loop example_config
        (first_then 1 (browsing (every (cell_view ''Not finalised'')))
           (browsing (every (cell_view ''D0600-1400 (8)''))))
        [saturday, sunday] 3 0)) =
       [SendSms (''Hours for (Saturday) 5/10/2024 are: D0600-1400 (8) (c) Bsecurity'' @ [CHR 0x0A]
          @ ''Hours for (Sunday) 6/10/2024 are: D0600-1400 (8) (c) Bsecurity'')
          [''+1234567890'', ''+0987654321'', ''+1122334455'']]
   \<and> attempts_started (fst (main_loop example_config
        (first_then 1 (browsing (every (cell_view ''Not finalised'')))
           (browsing (every (cell_view ''D0600-1400 (8)''))))
        [saturday, sunday] 3 0)) = 2"
proof -
  let ?nf = "browsing (every (cell_view ''Not finalised''))"
  let ?ok = "browsing (every (cell_view ''D0600-1400 (8)''))"
  have v: "label_text (every (cell_view ''Not finalised'') (0::nat)) = Ok ''October 2024''"
    "cell (every (cell_view ''Not finalised'') (0::nat))
       (date_cell_id (cell_index (month_offsets example_config) (month saturday) (day saturday)))
     = Found ''Not finalised''"
    by (simp_all add: every_def cell_view_def)
  have ok: "successful_attempt example_config ?ok [saturday, sunday]"
    by (simp add: successful_attempt_def rostered_weekend_attempt) (simp add: browsing_def)
  have m: "combined_message_of example_config ?ok [saturday, sunday] =
      ''Hours for (Saturday) 5/10/2024 are: D0600-1400 (8) (c) Bsecurity'' @ [CHR 0x0A]
      @ ''Hours for (Sunday) 6/10/2024 are: D0600-1400 (8) (c) Bsecurity'' @ [CHR 0x0A]"
    by (simp add: combined_message_of_def rostered_weekend_attempt)
  have c: "current_day ?ok = ''wed''" by (simp add: browsing_def)
  have cfg: "recipient_self example_config = ''+1234567890''"
    "recipient_wife example_config = ''+0987654321''"
    by (simp_all add: example_config_def config_def)
  from retry_state_machine [of "every (cell_view ''Not finalised'')" 0 "''October 2024''" saturday
      example_config "''Not finalised''" "[sunday]" "[]" 3 "every ?nf" "[saturday, sunday]" 0]
  have 1: "process_roster example_config (every (cell_view ''Not finalised'')) 0
       (saturday # [sunday]) [] =
     ([LogMessage ''WARNING'' ''SHIFT_NOT_FINALISED'' ''Not finalised for (Saturday) 5/10/2024.''
         ''Saturday'' ''2024-10-05'' 0 0 0 0],
      Inr (''Not finalised for (Saturday) 5/10/2024.'' @ [CHR 0x0A], True))"
    and 2: "\<exists>pre. main_loop example_config (every ?nf) [saturday, sunday] 3 0 =
            (pre @ [LogMessage ''ERROR'' ''RETRY_LIMIT_REACHED'' (retry_limit_message 3)
                      [] [] 0 0 0 3,
                    SendSms (retry_limit_message 3) [''+1234567890'', ''+0987654321'']],
             Some (SysExit 1))
          \<and> sms_sent pre = [] \<and> attempts_started pre = 3"
    using v example_texts example_dates not_finalised_example cfg
    by (simp_all add: every_def)
  from retry_state_machine [of "every (cell_view ''Not finalised'')" 0 "''October 2024''" saturday
      example_config "''Not finalised''" "[sunday]" "[]" 3 "first_then 1 ?nf ?ok"
      "[saturday, sunday]" 1]
  have 3: "snd (main_loop example_config (first_then 1 ?nf ?ok) [saturday, sunday] 3 0) = None
   \<and> sms_sent (fst (main_loop example_config (first_then 1 ?nf ?ok) [saturday, sunday] 3 0)) =
       [SendSms (''Hours for (Saturday) 5/10/2024 are: D0600-1400 (8) (c) Bsecurity'' @ [CHR 0x0A]
          @ ''Hours for (Sunday) 6/10/2024 are: D0600-1400 (8) (c) Bsecurity'')
          [''+1234567890'', ''+0987654321'', ''+1122334455'']]
   \<and> attempts_started (fst (main_loop example_config (first_then 1 ?nf ?ok)
        [saturday, sunday] 3 0)) = 2"
    using not_finalised_example ok m c weekend_message example_recipients
    by (simp add: first_then_def)
  from 1 2 3 show ?thesis by blast
qed


section \<open>Failure paths\<close>

lemma example_base_date:
  "determine_base_date \<lparr>year = 2024, month = 10, day = 3\<rparr> ''2024-10-04'' = ([], Inr friday)"
  by code_simp

lemma example_test_dates: "get_test_dates friday = Inr [saturday, sunday]"
  by code_simp

lemma main_example:
  "main cfg (example_world ss) = main_loop cfg ss [saturday, sunday] max_retries 0"
  by (simp add: main_def example_world_def example_base_date example_test_dates emit_def)

lemma attempt_auth_timeout_iff:
  "snd (attempt cfg s ds) = AuthTimeout \<longleftrightarrow>
     (\<exists>u. page_load s = Ok u) \<and>
     (username_field s = TimedOut
      \<or> (\<exists>u. username_field s = Found u) \<and>
        (password_field s = TimedOut
         \<or> (\<exists>u. password_field s = Found u) \<and> roster_page s = TimedOut))"
  by (simp add: attempt_def split: returned.split waited.split prod.split sum.split)

lemma attempt_auth_timeout_events:
  "snd (attempt cfg s ds) = AuthTimeout \<Longrightarrow> fst (attempt cfg s ds) = [DriverGet, DriverQuit]"
  by (simp add: attempt_def split: returned.splits waited.splits prod.splits sum.splits)

text \<open>
  Claim C3, as stated, fails on an authentication failure: when the wait for the
  username field times out, the run quits the driver and exits with status 1, and
  sends no message.
\<close>

theorem auth_timeout_without_sms:
  "username_field ((browsing (every (cell_view [])))\<lparr>username_field := TimedOut\<rparr>) = TimedOut
   \<and> main example_config
        (example_world (every ((browsing (every (cell_view [])))\<lparr>username_field := TimedOut\<rparr>))) =
       ([SetupWebdriver, DriverGet, DriverQuit], Some (SysExit 1))
   \<and> sms_sent [SetupWebdriver, DriverGet, DriverQuit] = []
   \<and> exit_status (Some (SysExit 1)) = 1"
proof -
  let ?s = "(browsing (every (cell_view [])))\<lparr>username_field := TimedOut\<rparr>"
  have a: "attempt example_config ?s [saturday, sunday] = ([DriverGet, DriverQuit], AuthTimeout)"
    by (simp add: attempt_def browsing_def)
  have w: "webdriver (every ?s (0::nat)) = Ok ()" by (simp add: every_def browsing_def)
  have "main_loop example_config (every ?s) [saturday, sunday] max_retries 0 =
      ([SetupWebdriver, DriverGet, DriverQuit], Some (SysExit 1))"
    using main_loop_auth_timeout [where ss = "every ?s" and k = 0 and limit = max_retries
        and cfg = example_config and ds = "[saturday, sunday]" and es = "[DriverGet, DriverQuit]"
        and u = "()"] a w
    by (simp add: every_def max_retries_def)
  then show ?thesis
    by (simp add: main_example exit_status_def)
qed

text \<open>
  Claim C3, amended. In an attempt whose driver has started: when an exception reaches
  the handler of \<open>main\<close>, the run quits the driver, sends the failure message to the
  primary and the secondary recipient, the only message of the run, and exits with
  status 1; when the last allowed attempt finds the roster not finalised, it sends the
  retry-limit message to the same two recipients, again the only message, and exits
  with status 1; when one of the three waits of the login times out, it quits the
  driver and exits with status 1 without sending a message.
\<close>

theorem failure_notifications:
  assumes "k < limit" and "webdriver (ss k) = Ok ()"
  shows "(snd (attempt cfg (ss k) ds) = Crashed e \<longrightarrow>
            (\<exists>pre. main_loop cfg ss ds limit k =
               (pre @ [DriverQuit,
                       SendSms (''Script encountered an error: '' @ e)
                         [recipient_self cfg, recipient_wife cfg],
                       LogMessage ''ERROR'' ''UNEXPECTED_ERROR''
                         (''Script encountered an error: '' @ e) [] [] 0 0 0 (int k)],
                Some (SysExit 1))
             \<and> sms_sent pre = []))
       \<and> (not_finalised_attempt cfg (ss k) ds \<and> Suc k = limit \<longrightarrow>
            (\<exists>pre. main_loop cfg ss ds limit k =
               (pre @ [LogMessage ''ERROR'' ''RETRY_LIMIT_REACHED'' (retry_limit_message limit)
                         [] [] 0 0 0 (int limit),
                       SendSms (retry_limit_message limit)
                         [recipient_self cfg, recipient_wife cfg]],
                Some (SysExit 1))
             \<and> sms_sent pre = []))
       \<and> (snd (attempt cfg (ss k) ds) = AuthTimeout \<longrightarrow>
            main_loop cfg ss ds limit k =
              ([SetupWebdriver, DriverGet, DriverQuit], Some (SysExit 1))
            \<and> sms_sent (fst (main_loop cfg ss ds limit k)) = [])
       \<and> (snd (attempt cfg (ss k) ds) = AuthTimeout \<longleftrightarrow>
            page_load (ss k) = Ok () \<and>
            (username_field (ss k) = TimedOut
             \<or> username_field (ss k) = Found () \<and>
               (password_field (ss k) = TimedOut
                \<or> password_field (ss k) = Found () \<and> roster_page (ss k) = TimedOut)))"
proof (intro conjI impI)
  assume c: "snd (attempt cfg (ss k) ds) = Crashed e"
  obtain es where a: "attempt cfg (ss k) ds = (es, Crashed e)"
    using c by (cases "attempt cfg (ss k) ds") simp
  have "main_loop cfg ss ds limit k =
      ((SetupWebdriver # es) @ [DriverQuit,
          SendSms (''Script encountered an error: '' @ e)
            [recipient_self cfg, recipient_wife cfg],
          LogMessage ''ERROR'' ''UNEXPECTED_ERROR''
            (''Script encountered an error: '' @ e) [] [] 0 0 0 (int k)],
       Some (SysExit 1))"
    using main_loop_crashed [where ss = ss and k = k, OF assms a] by simp
  moreover have "sms_sent (SetupWebdriver # es) = []"
    using attempt_silent [OF a] by simp
  ultimately show "\<exists>pre. main_loop cfg ss ds limit k =
               (pre @ [DriverQuit,
                       SendSms (''Script encountered an error: '' @ e)
                         [recipient_self cfg, recipient_wife cfg],
                       LogMessage ''ERROR'' ''UNEXPECTED_ERROR''
                         (''Script encountered an error: '' @ e) [] [] 0 0 0 (int k)],
                Some (SysExit 1))
             \<and> sms_sent pre = []"
    by blast
next
  assume n: "not_finalised_attempt cfg (ss k) ds \<and> Suc k = limit"
  then have "\<forall>i. k \<le> i \<and> i < limit \<longrightarrow> not_finalised_attempt cfg (ss i) ds"
    by (auto simp: less_Suc_eq_le)
  from exhausted_run [OF this assms(1)]
  show "\<exists>pre. main_loop cfg ss ds limit k =
               (pre @ [LogMessage ''ERROR'' ''RETRY_LIMIT_REACHED'' (retry_limit_message limit)
                         [] [] 0 0 0 (int limit),
                       SendSms (retry_limit_message limit)
                         [recipient_self cfg, recipient_wife cfg]],
                Some (SysExit 1))
             \<and> sms_sent pre = []"
    by blast
next
  assume t: "snd (attempt cfg (ss k) ds) = AuthTimeout"
  with attempt_auth_timeout_events [OF t]
  have a: "attempt cfg (ss k) ds = ([DriverGet, DriverQuit], AuthTimeout)"
    by (cases "attempt cfg (ss k) ds") simp
  from main_loop_auth_timeout [where ss = ss and k = k, OF assms a]
  show m: "main_loop cfg ss ds limit k = ([SetupWebdriver, DriverGet, DriverQuit], Some (SysExit 1))"
    by simp
  show "sms_sent (fst (main_loop cfg ss ds limit k)) = []"
    by (simp add: m)
next
  show "snd (attempt cfg (ss k) ds) = AuthTimeout \<longleftrightarrow>
            page_load (ss k) = Ok () \<and>
            (username_field (ss k) = TimedOut
             \<or> username_field (ss k) = Found () \<and>
               (password_field (ss k) = TimedOut
                \<or> password_field (ss k) = Found () \<and> roster_page (ss k) = TimedOut))"
    by (simp add: attempt_auth_timeout_iff)
qed


theorem failure_notifications_witness:
  "(\<exists>pre. main_loop example_config
           (every ((browsing (every (cell_view [])))\<lparr>page_load := Raised ''net''\<rparr>))
           [saturday] max_retries 0 =
         (pre @ [DriverQuit,
                 SendSms ''Script encountered an error: net'' [''+1234567890'', ''+0987654321''],
                 LogMessage ''ERROR'' ''UNEXPECTED_ERROR'' ''Script encountered an error: net''
                   [] [] 0 0 0 0],
          Some (SysExit 1))
       \<and> sms_sent pre = [])
   \<and> (\<exists>pre. main_loop example_config (every (browsing (every (cell_view ''Not finalised''))))
           [saturday, sunday] 1 0 =
         (pre @ [LogMessage ''ERROR'' ''RETRY_LIMIT_REACHED'' (retry_limit_message 1)
                   [] [] 0 0 0 1,
                 SendSms (retry_limit_message 1) [''+1234567890'', ''+0987654321'']],
          Some (SysExit 1))
       \<and> sms_sent pre = [])
   \<and> main_loop example_config
        (every ((browsing (every (cell_view [])))\<lparr>username_field := TimedOut\<rparr>))
        [saturday] max_retries 0 =
       ([SetupWebdriver, DriverGet, DriverQuit], Some (SysExit 1))"
proof -
  let ?crash = "(browsing (every (cell_view [])))\<lparr>page_load := Raised ''net''\<rparr>"
  let ?nf = "browsing (every (cell_view ''Not finalised''))"
  let ?auth = "(browsing (every (cell_view [])))\<lparr>username_field := TimedOut\<rparr>"
  have lim: "0 < max_retries" by (simp add: max_retries_def)
  have w: "webdriver ?crash = Ok ()" "webdriver ?nf = Ok ()" "webdriver ?auth = Ok ()"
    by (simp_all add: browsing_def)
  have a: "snd (attempt example_config ?crash [saturday]) = Crashed ''net''"
    "snd (attempt example_config ?auth [saturday]) = AuthTimeout"
    by (simp_all add: attempt_def browsing_def)
  have cfg: "recipient_self example_config = ''+1234567890''"
    "recipient_wife example_config = ''+0987654321''"
    by (simp_all add: example_config_def config_def)
  from failure_notifications [of 0 max_retries "every ?crash" example_config "[saturday]" "''net''"]
    lim w a cfg
  have 1: "\<exists>pre. main_loop example_config (every ?crash) [saturday] max_retries 0 =
         (pre @ [DriverQuit,
                 SendSms ''Script encountered an error: net'' [''+1234567890'', ''+0987654321''],
                 LogMessage ''ERROR'' ''UNEXPECTED_ERROR'' ''Script encountered an error: net''
                   [] [] 0 0 0 0],
          Some (SysExit 1))
       \<and> sms_sent pre = []"
    by (simp add: every_def)
  from failure_notifications [of 0 1 "every ?nf" example_config "[saturday, sunday]" "[]"]
    w not_finalised_example cfg
  have 2: "\<exists>pre. main_loop example_config (every ?nf) [saturday, sunday] 1 0 =
         (pre @ [LogMessage ''ERROR'' ''RETRY_LIMIT_REACHED'' (retry_limit_message 1)
                   [] [] 0 0 0 1,
                 SendSms (retry_limit_message 1) [''+1234567890'', ''+0987654321'']],
          Some (SysExit 1))
       \<and> sms_sent pre = []"
    by (simp add: every_def)
  from failure_notifications [of 0 max_retries "every ?auth" example_config "[saturday]" "[]"]
    lim w a
  have 3: "main_loop example_config (every ?auth) [saturday] max_retries 0 =
       ([SetupWebdriver, DriverGet, DriverQuit], Some (SysExit 1))"
    by (simp add: every_def)
  from 1 2 3 show ?thesis by blast
qed

lemma process_roster_raise:
  "process_date cfg (vs i) d = Raise e \<Longrightarrow>
   process_roster cfg vs i (d # rest) msg = ([], Inl e)"
  by simp

lemma process_roster_continue:
  "process_date cfg (vs i) d = Continue added es \<Longrightarrow>
   process_roster cfg vs i (d # rest) msg =
     emit es (process_roster cfg vs (Suc i) rest (msg @ added))"
  by simp

lemma attempt_crashed_in_scraping:
  assumes "page_load s = Ok ()" "username_field s = Found ()" "password_field s = Found ()"
    "roster_page s = Found ()" "snd (process_roster cfg (views s) 0 ds []) = Inl e"
  shows "snd (attempt cfg s ds) = Crashed e"
  using assms
  by (cases "process_roster cfg (views s) 0 ds []") (simp add: attempt_def)

lemma process_cell_fault:
  assumes "classify c = Rostered shifts h"
  shows "process_cell d c (FaultBeforeMessage e) =
           Continue []
             [LogMessage ''ERROR'' ''SHIFT_PROCESSING_ERROR''
                (''Error processing shift for '' @ isoformat d @ '': '' @ e)
                (weekday_name d) (iso_text d) 0 0 0 0]"
    and "process_cell d c (FaultAfterMessage e) =
           Continue (''Hours for '' @ day_text d @ '' are: '' @ strip c @ '' (c) Bsecurity''
                     @ [CHR 0x0A])
             [LogMessage ''ERROR'' ''SHIFT_PROCESSING_ERROR''
                (''Error processing shift for '' @ isoformat d @ '': '' @ e)
                (weekday_name d) (iso_text d) 0 0 0 0]"
  using assms by (simp_all add: process_cell_def Let_def)

lemma process_roster_later_raise:
  assumes "process_date cfg (vs i) d = Continue added evs"
    and "snd (process_roster cfg vs (Suc i) rest (msg @ added)) = Inl e"
  shows "snd (process_roster cfg vs i (d # rest) msg) = Inl e"
  using assms by (simp add: emit_def)

lemma process_date_raises:
  "label_text v = Raised e \<Longrightarrow> process_date cfg v d = Raise e"
  "label_text v = Ok cur \<Longrightarrow> strip cur \<noteq> month_year_text d \<Longrightarrow> navigation v = Failed e \<Longrightarrow>
   process_date cfg v d = Raise e"
  "label_text v = Ok cur \<Longrightarrow> strip cur = month_year_text d \<or> navigation v = Found () \<Longrightarrow>
   cell v (date_cell_id (cell_index (month_offsets cfg) (month d) (day d))) = Failed e \<Longrightarrow>
   process_date cfg v d = Raise e"
  by (auto simp: process_date_def)

lemma attempt_login_raises:
  "page_load s = Raised e \<Longrightarrow> attempt cfg s ds = ([DriverGet], Crashed e)"
  "page_load s = Ok () \<Longrightarrow> username_field s = Failed e \<Longrightarrow>
   attempt cfg s ds = ([DriverGet], Crashed e)"
  "page_load s = Ok () \<Longrightarrow> username_field s = Found () \<Longrightarrow> password_field s = Failed e \<Longrightarrow>
   attempt cfg s ds = ([DriverGet], Crashed e)"
  "page_load s = Ok () \<Longrightarrow> username_field s = Found () \<Longrightarrow> password_field s = Found () \<Longrightarrow>
   roster_page s = Failed e \<Longrightarrow> attempt cfg s ds = ([DriverGet], Crashed e)"
  by (simp_all add: attempt_def)

text \<open>
  Claim C4, amended. An exception that reaches the handler of \<open>main\<close> is fatal: the
  run quits the driver, sends the failure message, logs UNEXPECTED_ERROR with the
  retry counter as it was when the attempt began, and exits with status 1, having
  started no further attempt. The exceptions that reach the handler are: one raised
  by loading the page; one other than a timeout raised at the username field, at the
  password field or at the wait for the roster page; and one that leaves
  \<open>process_roster\<close>, which happens when reading the label of the calendar, navigating
  to the next month (other than by a timeout) or looking up the cell (other than by a
  timeout) raises, at the first date or after earlier dates have been handled, and
  which ends the loop over the dates there. An exception raised inside the guarded
  block that handles a rostered cell does not reach the handler: it is logged as
  SHIFT_PROCESSING_ERROR and the loop goes on with the next date.
\<close>

theorem unexpected_exception:
  "(k < limit \<and> webdriver (ss k) = Ok () \<and> attempt cfg (ss k) ds = (es, Crashed e) \<longrightarrow>
      main_loop cfg ss ds limit k =
        (SetupWebdriver # es @
           [DriverQuit,
            SendSms (''Script encountered an error: '' @ e)
              [recipient_self cfg, recipient_wife cfg],
            LogMessage ''ERROR'' ''UNEXPECTED_ERROR'' (''Script encountered an error: '' @ e)
              [] [] 0 0 0 (int k)],
         Some (SysExit 1))
      \<and> attempts_started (fst (main_loop cfg ss ds limit k)) = 1
      \<and> sms_sent (fst (main_loop cfg ss ds limit k)) =
          [SendSms (''Script encountered an error: '' @ e)
             [recipient_self cfg, recipient_wife cfg]])
   \<and> (page_load s = Raised e \<longrightarrow> attempt cfg s ds = ([DriverGet], Crashed e))
   \<and> (page_load s = Ok () \<and> username_field s = Failed e \<longrightarrow>
      attempt cfg s ds = ([DriverGet], Crashed e))
   \<and> (page_load s = Ok () \<and> username_field s = Found () \<and> password_field s = Failed e \<longrightarrow>
      attempt cfg s ds = ([DriverGet], Crashed e))
   \<and> (page_load s = Ok () \<and> username_field s = Found () \<and> password_field s = Found ()
        \<and> roster_page s = Failed e \<longrightarrow>
      attempt cfg s ds = ([DriverGet], Crashed e))
   \<and> (page_load s = Ok () \<and> username_field s = Found () \<and> password_field s = Found ()
        \<and> roster_page s = Found () \<and> snd (process_roster cfg (views s) 0 ds []) = Inl e \<longrightarrow>
      snd (attempt cfg s ds) = Crashed e)
   \<and> (label_text (vs i) = Raised e \<longrightarrow>
      process_roster cfg vs i (d # rest) msg = ([], Inl e))
   \<and> (label_text (vs i) = Ok cur \<and> strip cur \<noteq> month_year_text d
        \<and> navigation (vs i) = Failed e \<longrightarrow>
      process_roster cfg vs i (d # rest) msg = ([], Inl e))
   \<and> (label_text (vs i) = Ok cur
        \<and> (strip cur = month_year_text d \<or> navigation (vs i) = Found ())
        \<and> cell (vs i) (date_cell_id (cell_index (month_offsets cfg) (month d) (day d)))
            = Failed e \<longrightarrow>
      process_roster cfg vs i (d # rest) msg = ([], Inl e))
   \<and> (process_date cfg (vs i) d = Continue added evs
        \<and> snd (process_roster cfg vs (Suc i) rest (msg @ added)) = Inl e \<longrightarrow>
      snd (process_roster cfg vs i (d # rest) msg) = Inl e)
   \<and> (classify c = Rostered shifts h \<longrightarrow>
      process_cell d c (FaultBeforeMessage e) =
        Continue []
          [LogMessage ''ERROR'' ''SHIFT_PROCESSING_ERROR''
             (''Error processing shift for '' @ isoformat d @ '': '' @ e)
             (weekday_name d) (iso_text d) 0 0 0 0]
      \<and> process_cell d c (FaultAfterMessage e) =
        Continue (''Hours for '' @ day_text d @ '' are: '' @ strip c @ '' (c) Bsecurity''
                  @ [CHR 0x0A])
          [LogMessage ''ERROR'' ''SHIFT_PROCESSING_ERROR''
             (''Error processing shift for '' @ isoformat d @ '': '' @ e)
             (weekday_name d) (iso_text d) 0 0 0 0])
   \<and> (process_date cfg (vs i) d = Continue added evs \<longrightarrow>
      process_roster cfg vs i (d # rest) msg =
        emit evs (process_roster cfg vs (Suc i) rest (msg @ added)))"
proof -
  have A: "k < limit \<and> webdriver (ss k) = Ok () \<and> attempt cfg (ss k) ds = (es, Crashed e) \<longrightarrow>
      main_loop cfg ss ds limit k =
        (SetupWebdriver # es @
           [DriverQuit,
            SendSms (''Script encountered an error: '' @ e)
              [recipient_self cfg, recipient_wife cfg],
            LogMessage ''ERROR'' ''UNEXPECTED_ERROR'' (''Script encountered an error: '' @ e)
              [] [] 0 0 0 (int k)],
         Some (SysExit 1))
      \<and> attempts_started (fst (main_loop cfg ss ds limit k)) = 1
      \<and> sms_sent (fst (main_loop cfg ss ds limit k)) =
          [SendSms (''Script encountered an error: '' @ e)
             [recipient_self cfg, recipient_wife cfg]]"
  proof
    assume a: "k < limit \<and> webdriver (ss k) = Ok () \<and> attempt cfg (ss k) ds = (es, Crashed e)"
    then have k: "k < limit" and w: "webdriver (ss k) = Ok ()"
      and at: "attempt cfg (ss k) ds = (es, Crashed e)" by simp_all
    note m = main_loop_crashed [where ss = ss and k = k, OF k w at]
    from attempt_silent [OF at] show "main_loop cfg ss ds limit k =
        (SetupWebdriver # es @
           [DriverQuit,
            SendSms (''Script encountered an error: '' @ e)
              [recipient_self cfg, recipient_wife cfg],
            LogMessage ''ERROR'' ''UNEXPECTED_ERROR'' (''Script encountered an error: '' @ e)
              [] [] 0 0 0 (int k)],
         Some (SysExit 1))
      \<and> attempts_started (fst (main_loop cfg ss ds limit k)) = 1
      \<and> sms_sent (fst (main_loop cfg ss ds limit k)) =
          [SendSms (''Script encountered an error: '' @ e)
             [recipient_self cfg, recipient_wife cfg]]"
      by (simp add: m)
  qed
  have B: "page_load s = Raised e \<longrightarrow> attempt cfg s ds = ([DriverGet], Crashed e)"
    "page_load s = Ok () \<and> username_field s = Failed e \<longrightarrow>
      attempt cfg s ds = ([DriverGet], Crashed e)"
    "page_load s = Ok () \<and> username_field s = Found () \<and> password_field s = Failed e \<longrightarrow>
      attempt cfg s ds = ([DriverGet], Crashed e)"
    "page_load s = Ok () \<and> username_field s = Found () \<and> password_field s = Found ()
        \<and> roster_page s = Failed e \<longrightarrow>
      attempt cfg s ds = ([DriverGet], Crashed e)"
    using attempt_login_raises by blast+
  have B5: "page_load s = Ok () \<and> username_field s = Found () \<and> password_field s = Found ()
        \<and> roster_page s = Found () \<and> snd (process_roster cfg (views s) 0 ds []) = Inl e \<longrightarrow>
      snd (attempt cfg s ds) = Crashed e"
    using attempt_crashed_in_scraping by blast
  have C: "label_text (vs i) = Raised e \<longrightarrow>
      process_roster cfg vs i (d # rest) msg = ([], Inl e)"
    "label_text (vs i) = Ok cur \<and> strip cur \<noteq> month_year_text d
        \<and> navigation (vs i) = Failed e \<longrightarrow>
      process_roster cfg vs i (d # rest) msg = ([], Inl e)"
    "label_text (vs i) = Ok cur
        \<and> (strip cur = month_year_text d \<or> navigation (vs i) = Found ())
        \<and> cell (vs i) (date_cell_id (cell_index (month_offsets cfg) (month d) (day d)))
            = Failed e \<longrightarrow>
      process_roster cfg vs i (d # rest) msg = ([], Inl e)"
    using process_date_raises(1) [where v = "vs i" and e = e and cfg = cfg and d = d]
      process_date_raises(2) [where v = "vs i" and e = e and cfg = cfg and d = d and cur = cur]
      process_date_raises(3) [where v = "vs i" and e = e and cfg = cfg and d = d and cur = cur]
      process_roster_raise [where cfg = cfg and vs = vs and i = i and d = d and e = e
        and rest = rest and msg = msg]
    by blast+
  have C4: "process_date cfg (vs i) d = Continue added evs
        \<and> snd (process_roster cfg vs (Suc i) rest (msg @ added)) = Inl e \<longrightarrow>
      snd (process_roster cfg vs i (d # rest) msg) = Inl e"
    using process_roster_later_raise by blast
  have D: "classify c = Rostered shifts h \<longrightarrow>
      process_cell d c (FaultBeforeMessage e) =
        Continue []
          [LogMessage ''ERROR'' ''SHIFT_PROCESSING_ERROR''
             (''Error processing shift for '' @ isoformat d @ '': '' @ e)
             (weekday_name d) (iso_text d) 0 0 0 0]
      \<and> process_cell d c (FaultAfterMessage e) =
        Continue (''Hours for '' @ day_text d @ '' are: '' @ strip c @ '' (c) Bsecurity''
                  @ [CHR 0x0A])
          [LogMessage ''ERROR'' ''SHIFT_PROCESSING_ERROR''
             (''Error processing shift for '' @ isoformat d @ '': '' @ e)
             (weekday_name d) (iso_text d) 0 0 0 0]"
    using process_cell_fault by blast
  have E: "process_date cfg (vs i) d = Continue added evs \<longrightarrow>
      process_roster cfg vs i (d # rest) msg =
        emit evs (process_roster cfg vs (Suc i) rest (msg @ added))"
    using process_roster_continue by blast
  from A B B5 C C4 D E show ?thesis by (intro conjI)
qed

lemma faulty_saturday:
  "process_date cfg ((cell_view ''D0600-1400 (8)'')\<lparr>shift_fault := FaultAfterMessage ''boom''\<rparr>)
     saturday =
   Continue (''Hours for (Saturday) 5/10/2024 are: D0600-1400 (8) (c) Bsecurity'' @ [CHR 0x0A])
     [LogMessage ''ERROR'' ''SHIFT_PROCESSING_ERROR''
        ''Error processing shift for 2024-10-05: boom'' ''Saturday'' ''2024-10-05'' 0 0 0 0]"
  using process_cell_fault(2) [of "''D0600-1400 (8)''" _ _ saturday "''boom''"]
  by (simp add: process_date_cell_view example_dates example_texts example_isoformat)

lemma faulty_attempt:
  "attempt example_config
     (browsing (first_then 1
        ((cell_view ''D0600-1400 (8)'')\<lparr>shift_fault := FaultAfterMessage ''boom''\<rparr>)
        (cell_view ''D0600-1400 (8)'')))
     [saturday, sunday] =
   ([DriverGet,
     LogMessage ''ERROR'' ''SHIFT_PROCESSING_ERROR''
       ''Error processing shift for 2024-10-05: boom'' ''Saturday'' ''2024-10-05'' 0 0 0 0,
     LogMessage ''INFO'' ''SMS_SENT''
       ''Hours for (Sunday) 6/10/2024 are: D0600-1400 (8) (c) Bsecurity''
       ''Sunday'' ''2024-10-06'' 600 1400 8 0,
     DriverQuit],
    Scraped (''Hours for (Saturday) 5/10/2024 are: D0600-1400 (8) (c) Bsecurity'' @ [CHR 0x0A]
             @ ''Hours for (Sunday) 6/10/2024 are: D0600-1400 (8) (c) Bsecurity'' @ [CHR 0x0A])
      False)"
  by (simp add: attempt_browsing first_then_def faulty_saturday process_date_cell_view
      example_dates example_texts rostered_sunday)

text \<open>
  Claim C4, as stated, fails for an exception raised inside the guarded block that
  handles a rostered cell: with such an exception on the Saturday of a weekend plan,
  the run logs SHIFT_PROCESSING_ERROR, goes on with the Sunday, sends the success
  message and ends with status 0.
\<close>

theorem shift_fault_not_fatal:
  "shift_fault (first_then 1
        ((cell_view ''D0600-1400 (8)'')\<lparr>shift_fault := FaultAfterMessage ''boom''\<rparr>)
        (cell_view ''D0600-1400 (8)'') 0) = FaultAfterMessage ''boom''
   \<and> main example_config
       (example_world (every (browsing (first_then 1
          ((cell_view ''D0600-1400 (8)'')\<lparr>shift_fault := FaultAfterMessage ''boom''\<rparr>)
          (cell_view ''D0600-1400 (8)''))))) =
     ([SetupWebdriver, DriverGet,
       LogMessage ''ERROR'' ''SHIFT_PROCESSING_ERROR''
         ''Error processing shift for 2024-10-05: boom'' ''Saturday'' ''2024-10-05'' 0 0 0 0,
       LogMessage ''INFO'' ''SMS_SENT''
         ''Hours for (Sunday) 6/10/2024 are: D0600-1400 (8) (c) Bsecurity''
         ''Sunday'' ''2024-10-06'' 600 1400 8 0,
       DriverQuit,
       SendSms (''Hours for (Saturday) 5/10/2024 are: D0600-1400 (8) (c) Bsecurity'' @ [CHR 0x0A]
                @ ''Hours for (Sunday) 6/10/2024 are: D0600-1400 (8) (c) Bsecurity'')
         [''+1234567890'', ''+0987654321'', ''+1122334455'']],
      None)
   \<and> exit_status None = 0"
proof -
  let ?s = "browsing (first_then 1
        ((cell_view ''D0600-1400 (8)'')\<lparr>shift_fault := FaultAfterMessage ''boom''\<rparr>)
        (cell_view ''D0600-1400 (8)''))"
  have w: "webdriver (every ?s (0::nat)) = Ok ()" "current_day ?s = ''wed''"
    by (simp_all add: every_def browsing_def)
  have lim: "0 < max_retries" by (simp add: max_retries_def)
  have a: "attempt example_config (every ?s (0::nat)) [saturday, sunday] =
      ([DriverGet,
     LogMessage ''ERROR'' ''SHIFT_PROCESSING_ERROR''
       ''Error processing shift for 2024-10-05: boom'' ''Saturday'' ''2024-10-05'' 0 0 0 0,
     LogMessage ''INFO'' ''SMS_SENT''
       ''Hours for (Sunday) 6/10/2024 are: D0600-1400 (8) (c) Bsecurity''
       ''Sunday'' ''2024-10-06'' 600 1400 8 0,
     DriverQuit],
    Scraped (''Hours for (Saturday) 5/10/2024 are: D0600-1400 (8) (c) Bsecurity'' @ [CHR 0x0A]
             @ ''Hours for (Sunday) 6/10/2024 are: D0600-1400 (8) (c) Bsecurity'' @ [CHR 0x0A])
      False)"
    using faulty_attempt by (simp add: every_def)
  from main_loop_success [where ss = "every ?s" and k = 0, OF lim w(1) a]
  have "main_loop example_config (every ?s) [saturday, sunday] max_retries 0 =
     ([SetupWebdriver, DriverGet,
       LogMessage ''ERROR'' ''SHIFT_PROCESSING_ERROR''
         ''Error processing shift for 2024-10-05: boom'' ''Saturday'' ''2024-10-05'' 0 0 0 0,
       LogMessage ''INFO'' ''SMS_SENT''
         ''Hours for (Sunday) 6/10/2024 are: D0600-1400 (8) (c) Bsecurity''
         ''Sunday'' ''2024-10-06'' 600 1400 8 0,
       DriverQuit,
       SendSms (''Hours for (Saturday) 5/10/2024 are: D0600-1400 (8) (c) Bsecurity'' @ [CHR 0x0A]
                @ ''Hours for (Sunday) 6/10/2024 are: D0600-1400 (8) (c) Bsecurity'')
         [''+1234567890'', ''+0987654321'', ''+1122334455'']],
      None)"
    using weekend_message example_recipients w(2) by (simp add: every_def)
  then show ?thesis
    by (simp add: main_example exit_status_def first_then_def)
qed

theorem unexpected_exception_witness:
  "main_loop example_config
      (every ((browsing (every (cell_view [])))\<lparr>username_field := Failed ''gone''\<rparr>))
      [saturday] max_retries 0 =
     ([SetupWebdriver, DriverGet, DriverQuit,
       SendSms ''Script encountered an error: gone'' [''+1234567890'', ''+0987654321''],
       LogMessage ''ERROR'' ''UNEXPECTED_ERROR'' ''Script encountered an error: gone''
         [] [] 0 0 0 0],
      Some (SysExit 1))
   \<and> attempt example_config ((browsing (every (cell_view [])))\<lparr>page_load := Raised ''net''\<rparr>)
        [saturday] = ([DriverGet], Crashed ''net'')
   \<and> attempt example_config ((browsing (every (cell_view [])))\<lparr>password_field := Failed ''gone''\<rparr>)
        [saturday] = ([DriverGet], Crashed ''gone'')
   \<and> attempt example_config ((browsing (every (cell_view [])))\<lparr>roster_page := Failed ''gone''\<rparr>)
        [saturday] = ([DriverGet], Crashed ''gone'')
   \<and> snd (attempt example_config
        (browsing (every ((cell_view [])\<lparr>label_text := Raised ''stale''\<rparr>)))
        [saturday, sunday]) = Crashed ''stale''
   \<and> process_roster example_config (every ((cell_view [])\<lparr>label_text := Raised ''stale''\<rparr>)) 0
        (saturday # [sunday]) [] = ([], Inl ''stale'')
   \<and> process_roster example_config
        (every ((cell_view [])\<lparr>label_text := Ok ''September 2024'',
                               navigation := Failed ''click''\<rparr>)) 0
        (saturday # [sunday]) [] = ([], Inl ''click'')
   \<and> process_roster example_config
        (every ((cell_view [])\<lparr>cell := every (Failed ''detached'')\<rparr>)) 0
        (saturday # [sunday]) [] = ([], Inl ''detached'')
   \<and> snd (process_roster example_config
        (first_then 1 (cell_view ''D0600-1400 (8)'')
           ((cell_view [])\<lparr>label_text := Raised ''stale''\<rparr>)) 0
        (saturday # [sunday]) []) = Inl ''stale''
   \<and> process_cell saturday ''D0600-1400 (8)'' (FaultBeforeMessage ''boom'') =
        Continue []
          [LogMessage ''ERROR'' ''SHIFT_PROCESSING_ERROR''
             ''Error processing shift for 2024-10-05: boom'' ''Saturday'' ''2024-10-05'' 0 0 0 0]
   \<and> process_roster example_config
        (first_then 1
           ((cell_view ''D0600-1400 (8)'')\<lparr>shift_fault := FaultAfterMessage ''boom''\<rparr>)
           (cell_view ''D0600-1400 (8)''))
        0 (saturday # [sunday]) [] =
       emit [LogMessage ''ERROR'' ''SHIFT_PROCESSING_ERROR''
               ''Error processing shift for 2024-10-05: boom'' ''Saturday'' ''2024-10-05'' 0 0 0 0]
         (process_roster example_config
            (first_then 1
               ((cell_view ''D0600-1400 (8)'')\<lparr>shift_fault := FaultAfterMessage ''boom''\<rparr>)
               (cell_view ''D0600-1400 (8)''))
            (Suc 0) [sunday]
            ([] @ ''Hours for (Saturday) 5/10/2024 are: D0600-1400 (8) (c) Bsecurity''
               @ [CHR 0x0A]))"
proof -
  let ?user = "(browsing (every (cell_view [])))\<lparr>username_field := Failed ''gone''\<rparr>"
  let ?load = "(browsing (every (cell_view [])))\<lparr>page_load := Raised ''net''\<rparr>"
  let ?pass = "(browsing (every (cell_view [])))\<lparr>password_field := Failed ''gone''\<rparr>"
  let ?page = "(browsing (every (cell_view [])))\<lparr>roster_page := Failed ''gone''\<rparr>"
  let ?stale = "every ((cell_view [])\<lparr>label_text := Raised ''stale''\<rparr>) :: nat \<Rightarrow> date_view"
  let ?nav = "every ((cell_view [])\<lparr>label_text := Ok ''September 2024'',
      navigation := Failed ''click''\<rparr>) :: nat \<Rightarrow> date_view"
  let ?cell = "every ((cell_view [])\<lparr>cell := every (Failed ''detached'')\<rparr>) :: nat \<Rightarrow> date_view"
  let ?later = "first_then 1 (cell_view ''D0600-1400 (8)'')
      ((cell_view [])\<lparr>label_text := Raised ''stale''\<rparr>)"
  let ?faulty = "first_then 1
           ((cell_view ''D0600-1400 (8)'')\<lparr>shift_fault := FaultAfterMessage ''boom''\<rparr>)
           (cell_view ''D0600-1400 (8)'')"
  have lim: "0 < max_retries" by (simp add: max_retries_def)
  have cfg: "recipient_self example_config = ''+1234567890''"
    "recipient_wife example_config = ''+0987654321''"
    by (simp_all add: example_config_def config_def)
  have sept: "strip ''September 2024'' \<noteq> month_year_text saturday"
    unfolding example_dates by code_simp
  have f: "process_date example_config (?faulty 0) saturday =
      Continue (''Hours for (Saturday) 5/10/2024 are: D0600-1400 (8) (c) Bsecurity'' @ [CHR 0x0A])
        [LogMessage ''ERROR'' ''SHIFT_PROCESSING_ERROR''
           ''Error processing shift for 2024-10-05: boom'' ''Saturday'' ''2024-10-05'' 0 0 0 0]"
    using faulty_saturday by (simp add: first_then_def)
  have g: "process_date example_config (?later 0) saturday =
      Continue (''Hours for (Saturday) 5/10/2024 are: D0600-1400 (8) (c) Bsecurity'' @ [CHR 0x0A])
        [LogMessage ''INFO'' ''SMS_SENT''
          ''Hours for (Saturday) 5/10/2024 are: D0600-1400 (8) (c) Bsecurity''
          ''Saturday'' ''2024-10-05'' 600 1400 8 0]"
    by (simp add: first_then_def process_date_cell_view example_dates example_texts
        rostered_saturday)
  note handler = unexpected_exception [where k = 0 and limit = max_retries
      and ss = "every ?user" and cfg = example_config and ds = "[saturday]"
      and es = "[DriverGet]" and e = "''gone''", THEN conjunct1]
  note load = unexpected_exception [where s = ?load and e = "''net''"
      and cfg = example_config and ds = "[saturday]", THEN conjunct2, THEN conjunct1]
  note user = unexpected_exception [where s = ?user and e = "''gone''"
      and cfg = example_config and ds = "[saturday]", THEN conjunct2, THEN conjunct2, THEN conjunct1]
  note pass = unexpected_exception [where s = ?pass and e = "''gone''"
      and cfg = example_config and ds = "[saturday]", THEN conjunct2, THEN conjunct2, THEN conjunct2, THEN conjunct1]
  note page = unexpected_exception [where s = ?page and e = "''gone''"
      and cfg = example_config and ds = "[saturday]", THEN conjunct2, THEN conjunct2, THEN conjunct2, THEN conjunct2, THEN conjunct1]
  note scrape = unexpected_exception [where s = "browsing ?stale" and e = "''stale''"
      and cfg = example_config and ds = "[saturday, sunday]", THEN conjunct2, THEN conjunct2, THEN conjunct2, THEN conjunct2, THEN conjunct2, THEN conjunct1]
  note label = unexpected_exception [where vs = ?stale and i = 0 and e = "''stale''"
      and cfg = example_config and d = saturday and rest = "[sunday]" and msg = "[]", THEN conjunct2, THEN conjunct2, THEN conjunct2, THEN conjunct2, THEN conjunct2, THEN conjunct2, THEN conjunct1]
  note nav = unexpected_exception [where vs = ?nav and i = 0 and e = "''click''"
      and cur = "''September 2024''"
      and cfg = example_config and d = saturday and rest = "[sunday]" and msg = "[]", THEN conjunct2, THEN conjunct2, THEN conjunct2, THEN conjunct2, THEN conjunct2, THEN conjunct2, THEN conjunct2, THEN conjunct1]
  note cell = unexpected_exception [where vs = ?cell and i = 0 and e = "''detached''"
      and cur = "''October 2024''"
      and cfg = example_config and d = saturday and rest = "[sunday]" and msg = "[]", THEN conjunct2, THEN conjunct2, THEN conjunct2, THEN conjunct2, THEN conjunct2, THEN conjunct2, THEN conjunct2, THEN conjunct2, THEN conjunct1]
  note later = unexpected_exception [where vs = ?later and i = 0 and e = "''stale''"
      and cfg = example_config and d = saturday and rest = "[sunday]" and msg = "[]"
      and added = "''Hours for (Saturday) 5/10/2024 are: D0600-1400 (8) (c) Bsecurity'' @ [CHR 0x0A]"
      and evs = "[LogMessage ''INFO'' ''SMS_SENT''
          ''Hours for (Saturday) 5/10/2024 are: D0600-1400 (8) (c) Bsecurity''
          ''Saturday'' ''2024-10-05'' 600 1400 8 0]", THEN conjunct2, THEN conjunct2, THEN conjunct2, THEN conjunct2, THEN conjunct2, THEN conjunct2, THEN conjunct2, THEN conjunct2, THEN conjunct2, THEN conjunct1]
  note block = unexpected_exception [where c = "''D0600-1400 (8)''" and d = saturday
      and e = "''boom''"
      and shifts = "[\<lparr>shift_type = ''D'', shift_start = 600, shift_end = 1400, hours = 8\<rparr>]"
      and h = 8, THEN conjunct2, THEN conjunct2, THEN conjunct2, THEN conjunct2, THEN conjunct2, THEN conjunct2, THEN conjunct2, THEN conjunct2, THEN conjunct2, THEN conjunct2, THEN conjunct1]
  note goes_on = unexpected_exception [where vs = ?faulty and i = 0
      and cfg = example_config and d = saturday and rest = "[sunday]" and msg = "[]"
      and added = "''Hours for (Saturday) 5/10/2024 are: D0600-1400 (8) (c) Bsecurity'' @ [CHR 0x0A]"
      and evs = "[LogMessage ''ERROR'' ''SHIFT_PROCESSING_ERROR''
           ''Error processing shift for 2024-10-05: boom'' ''Saturday'' ''2024-10-05'' 0 0 0 0]",
      THEN conjunct2, THEN conjunct2, THEN conjunct2, THEN conjunct2, THEN conjunct2, THEN conjunct2, THEN conjunct2, THEN conjunct2, THEN conjunct2, THEN conjunct2, THEN conjunct2]
  have 2: "attempt example_config ?load [saturday] = ([DriverGet], Crashed ''net'')"
    using load by (simp add: browsing_def)
  have u: "attempt example_config ?user [saturday] = ([DriverGet], Crashed ''gone'')"
    using user by (simp add: browsing_def)
  have 1: "main_loop example_config (every ?user) [saturday] max_retries 0 =
     ([SetupWebdriver, DriverGet, DriverQuit,
       SendSms ''Script encountered an error: gone'' [''+1234567890'', ''+0987654321''],
       LogMessage ''ERROR'' ''UNEXPECTED_ERROR'' ''Script encountered an error: gone''
         [] [] 0 0 0 0],
      Some (SysExit 1))"
    using handler lim u cfg by (simp add: every_def browsing_def)
  have 3: "attempt example_config ?pass [saturday] = ([DriverGet], Crashed ''gone'')"
    using pass by (simp add: browsing_def)
  have 4: "attempt example_config ?page [saturday] = ([DriverGet], Crashed ''gone'')"
    using page by (simp add: browsing_def)
  have 6: "process_roster example_config ?stale 0 (saturday # [sunday]) [] = ([], Inl ''stale'')"
    using label by (simp add: every_def cell_view_def)
  have 5: "snd (attempt example_config (browsing ?stale) [saturday, sunday]) = Crashed ''stale''"
    using scrape 6 by (simp add: browsing_def)
  have 7: "process_roster example_config ?nav 0 (saturday # [sunday]) [] = ([], Inl ''click'')"
    using nav sept by (simp add: every_def cell_view_def)
  have 8: "process_roster example_config ?cell 0 (saturday # [sunday]) [] = ([], Inl ''detached'')"
    using cell example_texts(1) example_dates(1) by (simp add: every_def cell_view_def)
  have l2: "snd (process_roster example_config ?later (Suc 0) [sunday]
      ([] @ ''Hours for (Saturday) 5/10/2024 are: D0600-1400 (8) (c) Bsecurity'' @ [CHR 0x0A]))
      = Inl ''stale''"
    by (simp add: first_then_def process_date_def cell_view_def)
  have 9: "snd (process_roster example_config ?later 0 (saturday # [sunday]) []) = Inl ''stale''"
    using later g l2 by blast
  have 10: "process_cell saturday ''D0600-1400 (8)'' (FaultBeforeMessage ''boom'') =
        Continue []
          [LogMessage ''ERROR'' ''SHIFT_PROCESSING_ERROR''
             ''Error processing shift for 2024-10-05: boom'' ''Saturday'' ''2024-10-05'' 0 0 0 0]"
    using block example_texts example_dates example_isoformat by simp
  have 11: "process_roster example_config ?faulty 0 (saturday # [sunday]) [] =
       emit [LogMessage ''ERROR'' ''SHIFT_PROCESSING_ERROR''
               ''Error processing shift for 2024-10-05: boom'' ''Saturday'' ''2024-10-05'' 0 0 0 0]
         (process_roster example_config ?faulty (Suc 0) [sunday]
            ([] @ ''Hours for (Saturday) 5/10/2024 are: D0600-1400 (8) (c) Bsecurity''
               @ [CHR 0x0A]))"
    using goes_on [THEN mp, OF f] .
  from 1 2 3 4 5 6 7 8 9 10 11 show ?thesis by (intro conjI)
qed

section \<open>The date argument\<close>

lemma char_codes:
  "(c = CHR ''0'') = (of_char c = (48::nat))"
  "(c = CHR ''1'') = (of_char c = (49::nat))"
  "(c = CHR ''3'') = (of_char c = (51::nat))"
  "(c = CHR '' '') = (of_char c = (32::nat))"
  "(c = CHR ''-'') = (of_char c = (45::nat))"
  "(CHR ''-'' = c) = (of_char c = (45::nat))"
  using of_char_eq_iff [of c "CHR ''0''", where ?'a = nat]
    of_char_eq_iff [of c "CHR ''1''", where ?'a = nat]
    of_char_eq_iff [of c "CHR ''3''", where ?'a = nat]
    of_char_eq_iff [of c "CHR '' ''", where ?'a = nat]
    of_char_eq_iff [of c "CHR ''-''", where ?'a = nat]
  by auto

lemma digits_val_two:
  "digits_val [a, b] = (int (of_char a) - 48) * 10 + (int (of_char b) - 48)"
  by (simp add: digits_val_def digit_val_def)

lemma month_two_digits:
  assumes "is_digit e" "is_digit f"
  shows "concat (map (\<lambda>(m, r3). concat (map (F m) (match_lit (CHR ''-'') r3)))
           (match_month (e # f # CHR ''-'' # r))) =
         (if 1 \<le> digits_val [e, f] \<and> digits_val [e, f] \<le> 12
          then F (digits_val [e, f]) r else [])"
  using assms
  unfolding match_month_def two_chars_def one_char_def match_lit_def in_range_def is_digit_def
    digits_val_two char_codes
  by (auto simp: char_codes digits_val_two)


lemma day_two_digits:
  assumes "is_digit g" "is_digit h"
  shows "match_day [g, h] =
         (if 1 \<le> digits_val [g, h] \<and> digits_val [g, h] \<le> 31
          then [(digits_val [g, h], [])] else [])
         @ (if digit_val g \<noteq> 0 then [(digit_val g, [h])] else [])"
  using assms
  unfolding match_day_def two_chars_def one_char_def in_range_def is_digit_def
    digits_val_two char_codes digit_val_def
  by (auto simp: char_codes digits_val_two)

lemma iso_shape:
  assumes "is_yyyy_mm_dd s"
  obtains a b c d e f g h where "s = [a, b, c, d, CHR ''-'', e, f, CHR ''-'', g, h]"
    "is_digit a" "is_digit b" "is_digit c" "is_digit d" "is_digit e" "is_digit f"
    "is_digit g" "is_digit h"
proof -
  from assms have len: "length s = 10" by (simp add: is_yyyy_mm_dd_def)
  then obtain a b c d x e f y g h where s: "s = [a, b, c, d, x, e, f, y, g, h]"
    by (auto simp: numeral_eq_Suc length_Suc_conv)
  with assms that show ?thesis
    by (simp add: is_yyyy_mm_dd_def)
qed


lemma days_in_month_le:
  assumes "1 \<le> m" "m \<le> 12"
  shows "days_in_month y m \<le> 31"
  using month_cases [OF assms]
  by (elim disjE) (simp_all add: days_in_month_def DAYS_IN_MONTH_def)

lemma regex_ymd_iso:
  assumes "is_digit a" "is_digit b" "is_digit c" "is_digit d" "is_digit e" "is_digit f"
    "is_digit g" "is_digit h"
  shows "regex_ymd [a, b, c, d, CHR ''-'', e, f, CHR ''-'', g, h] =
     (if 1 \<le> digits_val [e, f] \<and> digits_val [e, f] \<le> 12
      then map (\<lambda>(dd, r5). (digits_val [a, b, c, d], digits_val [e, f], dd, r5)) (match_day [g, h])
      else [])"
proof -
  have y: "match_year [a, b, c, d, CHR ''-'', e, f, CHR ''-'', g, h] =
      [(digits_val [a, b, c, d], [CHR ''-'', e, f, CHR ''-'', g, h])]"
    using assms by (simp add: match_year_def)
  have l: "match_lit (CHR ''-'') [CHR ''-'', e, f, CHR ''-'', g, h] = [[e, f, CHR ''-'', g, h]]"
    by (simp add: match_lit_def)
  show ?thesis
    unfolding regex_ymd_def y
    using month_two_digits [OF assms(5,6),
        of "\<lambda>m r4. map (\<lambda>(dd, r5). (digits_val [a, b, c, d], m, dd, r5)) (match_day r4)" "[g, h]"]
    by (simp add: l)
qed

lemma strptime_iso:
  assumes "is_yyyy_mm_dd s"
  shows "strptime_ymd s =
     make_date (digits_val (take 4 s)) (digits_val (take 2 (drop 5 s))) (digits_val (drop 8 s))"
proof -
  from assms obtain a b c d e f g h
    where s: "s = [a, b, c, d, CHR ''-'', e, f, CHR ''-'', g, h]"
      and dg: "is_digit a" "is_digit b" "is_digit c" "is_digit d" "is_digit e" "is_digit f"
        "is_digit g" "is_digit h"
    by (rule iso_shape)
  let ?y = "digits_val [a, b, c, d]" and ?m = "digits_val [e, f]" and ?d = "digits_val [g, h]"
  have parts: "take 4 s = [a, b, c, d]" "take 2 (drop 5 s) = [e, f]" "drop 8 s = [g, h]"
    by (simp_all add: s)
  note rx = regex_ymd_iso [OF dg]
  note dy = day_two_digits [OF dg(7,8)]
  show ?thesis
  proof (cases "1 \<le> ?m \<and> ?m \<le> 12")
    case False
    then have "make_date ?y ?m ?d = None" by (auto simp: make_date_def valid_date_def)
    moreover from False rx have "regex_ymd [a, b, c, d, CHR ''-'', e, f, CHR ''-'', g, h] = []"
      by auto
    then have "strptime_ymd s = None"
      by (simp add: strptime_ymd_def s)
    ultimately show ?thesis by (simp add: parts)
  next
    case m: True
    with rx have rx': "regex_ymd [a, b, c, d, CHR ''-'', e, f, CHR ''-'', g, h] =
        map (\<lambda>(dd, r5). (digits_val [a, b, c, d], digits_val [e, f], dd, r5)) (match_day [g, h])"
      by simp
    show ?thesis
    proof (cases "1 \<le> ?d \<and> ?d \<le> 31")
      case True
      then have "strptime_ymd s = make_date ?y ?m ?d"
        by (simp add: strptime_ymd_def s rx' dy)
      then show ?thesis by (simp add: parts)
    next
      case False
      from m have "days_in_month ?y ?m \<le> 31" by (intro days_in_month_le) simp_all
      with False have "make_date ?y ?m ?d = None"
        by (auto simp: make_date_def valid_date_def)
      moreover from False have "strptime_ymd s = None"
        by (auto simp: strptime_ymd_def s rx' dy)
      ultimately show ?thesis by (simp add: parts)
    qed
  qed
qed


lemma main_loop_hd:
  "k < limit \<Longrightarrow> hd (fst (main_loop cfg ss ds limit k)) = SetupWebdriver"
  by (subst main_loop.simps) (simp add: emit_def)

lemma determine_base_date_exit:
  "snd (determine_base_date t s) = Inl (SysExit 1) \<longleftrightarrow>
     lower s \<noteq> ''today'' \<and> lower s \<noteq> ''tomorrow'' \<and> strptime_ymd s = None"
  by (auto simp: determine_base_date_def add_days_def Let_def split: option.splits)

text \<open>
  Claim C9, as stated, fails: \<open>TODAY\<close> is neither of the two literal tokens nor of the
  form \<open>YYYY-MM-DD\<close>, yet it is taken as today and the run goes on to start the
  driver; and \<open>2024-1-5\<close>, which is not of the form \<open>YYYY-MM-DD\<close>, is taken as
  5 January 2024.
\<close>

theorem date_arg_other_values_accepted:
  "''TODAY'' \<noteq> ''today'' \<and> ''TODAY'' \<noteq> ''tomorrow'' \<and> \<not> is_yyyy_mm_dd ''TODAY''
   \<and> determine_base_date friday ''TODAY'' = ([], Inr friday)
   \<and> hd (fst (main example_config ((example_world (every (browsing (every (cell_view [])))))
          \<lparr>date_arg := ''TODAY''\<rparr>))) = SetupWebdriver
   \<and> ''2024-1-5'' \<noteq> ''today'' \<and> ''2024-1-5'' \<noteq> ''tomorrow'' \<and> \<not> is_yyyy_mm_dd ''2024-1-5''
   \<and> determine_base_date friday ''2024-1-5'' = ([], Inr \<lparr>year = 2024, month = 1, day = 5\<rparr>)"
proof -
  have a: "\<not> is_yyyy_mm_dd ''TODAY''" "\<not> is_yyyy_mm_dd ''2024-1-5''"
    by (simp_all add: is_yyyy_mm_dd_def)
  have l: "lower ''TODAY'' = ''today''" by code_simp
  have b: "determine_base_date friday ''TODAY'' = ([], Inr friday)"
    by (simp add: determine_base_date_def l)
  have c: "determine_base_date friday ''2024-1-5'' =
      ([], Inr \<lparr>year = 2024, month = 1, day = 5\<rparr>)"
    by code_simp
  have d: "get_test_dates \<lparr>year = 2024, month = 10, day = 3\<rparr> = Inr [friday]"
    by code_simp
  have "main example_config ((example_world (every (browsing (every (cell_view [])))))
          \<lparr>date_arg := ''TODAY''\<rparr>) =
      main_loop example_config (every (browsing (every (cell_view [])))) [friday] max_retries 0"
    by (simp add: main_def example_world_def determine_base_date_def l d emit_def)
  then have e: "hd (fst (main example_config
        ((example_world (every (browsing (every (cell_view [])))))\<lparr>date_arg := ''TODAY''\<rparr>))) =
      SetupWebdriver"
    by (simp add: main_loop_hd max_retries_def)
  from a b c e show ?thesis by simp
qed

text \<open>
  Claim C9, amended. The date argument is accepted when its lower-case form is
  \<open>today\<close> or \<open>tomorrow\<close>, or when \<open>strptime\<close> reads it with the format \<open>%Y-%m-%d\<close>;
  a text of the form \<open>YYYY-MM-DD\<close> is read exactly when its three numbers are a
  calendar date. For every other value, and for no accepted one, the program prints
  the diagnostic and exits with status 1, and the diagnostic is the only thing the run
  does: no driver is started, no page requested, no message sent.
\<close>

theorem date_arg_accepted:
  "(lower (date_arg w) \<noteq> ''today'' \<and> lower (date_arg w) \<noteq> ''tomorrow''
      \<and> strptime_ymd (date_arg w) = None \<longrightarrow>
      main cfg w = ([Print invalid_date_diagnostic], Some (SysExit 1)))
   \<and> (lower s = ''today'' \<longrightarrow> determine_base_date t s = ([], Inr t))
   \<and> (lower s = ''tomorrow'' \<longrightarrow> determine_base_date t s = ([], add_days t 1))
   \<and> (lower s \<noteq> ''today'' \<and> lower s \<noteq> ''tomorrow'' \<and> strptime_ymd s = Some d \<longrightarrow>
      determine_base_date t s = ([], Inr d))
   \<and> (is_yyyy_mm_dd s \<longrightarrow>
      strptime_ymd s =
        make_date (digits_val (take 4 s)) (digits_val (take 2 (drop 5 s))) (digits_val (drop 8 s)))
   \<and> (snd (determine_base_date t s) = Inl (SysExit 1) \<longleftrightarrow>
        lower s \<noteq> ''today'' \<and> lower s \<noteq> ''tomorrow'' \<and> strptime_ymd s = None)"
proof -
  have 1: "lower (date_arg w) \<noteq> ''today'' \<and> lower (date_arg w) \<noteq> ''tomorrow''
      \<and> strptime_ymd (date_arg w) = None \<longrightarrow>
      main cfg w = ([Print invalid_date_diagnostic], Some (SysExit 1))"
    by (simp add: main_def determine_base_date_def)
  have 2: "lower s = ''today'' \<longrightarrow> determine_base_date t s = ([], Inr t)"
    by (simp add: determine_base_date_def)
  have 3: "lower s = ''tomorrow'' \<longrightarrow> determine_base_date t s = ([], add_days t 1)"
    by (simp add: determine_base_date_def)
  have 4: "lower s \<noteq> ''today'' \<and> lower s \<noteq> ''tomorrow'' \<and> strptime_ymd s = Some d \<longrightarrow>
      determine_base_date t s = ([], Inr d)"
    by (simp add: determine_base_date_def)
  have 5: "is_yyyy_mm_dd s \<longrightarrow>
      strptime_ymd s =
        make_date (digits_val (take 4 s)) (digits_val (take 2 (drop 5 s))) (digits_val (drop 8 s))"
    using strptime_iso by blast
  note 6 = determine_base_date_exit [of t s]
  from 1 2 3 4 5 6 show ?thesis by (intro conjI)
qed

theorem date_arg_accepted_witness:
  "main example_config ((example_world (every (browsing (every (cell_view [])))))
      \<lparr>date_arg := ''yesterday''\<rparr>) = ([Print invalid_date_diagnostic], Some (SysExit 1))
   \<and> determine_base_date friday ''today'' = ([], Inr friday)
   \<and> determine_base_date friday ''Tomorrow'' = ([], Inr saturday)
   \<and> determine_base_date saturday ''2024-10-04'' = ([], Inr friday)
   \<and> strptime_ymd ''2024-02-30'' = None
   \<and> snd (determine_base_date friday ''2024-02-30'') = Inl (SysExit 1)
   \<and> strptime_ymd ''2024-01- 5'' = Some \<lparr>year = 2024, month = 1, day = 5\<rparr>
   \<and> strptime_ymd ''2024-12-311'' = None"
proof -
  let ?w = "(example_world (every (browsing (every (cell_view [])))))\<lparr>date_arg := ''yesterday''\<rparr>"
  have y: "lower (date_arg ?w) \<noteq> ''today''" "lower (date_arg ?w) \<noteq> ''tomorrow''"
    "strptime_ymd (date_arg ?w) = None"
    unfolding example_world_def by code_simp+
  have l: "lower ''today'' = ''today''" "lower ''Tomorrow'' = ''tomorrow''"
    "lower ''2024-10-04'' \<noteq> ''today''" "lower ''2024-10-04'' \<noteq> ''tomorrow''"
    "lower ''2024-02-30'' \<noteq> ''today''" "lower ''2024-02-30'' \<noteq> ''tomorrow''"
    by code_simp+
  have iso: "is_yyyy_mm_dd ''2024-10-04''" "is_yyyy_mm_dd ''2024-02-30''"
    by code_simp+
  have mk: "make_date (digits_val (take 4 ''2024-10-04'')) (digits_val (take 2 (drop 5 ''2024-10-04'')))
      (digits_val (drop 8 ''2024-10-04'')) = Some friday"
    "make_date (digits_val (take 4 ''2024-02-30'')) (digits_val (take 2 (drop 5 ''2024-02-30'')))
      (digits_val (drop 8 ''2024-02-30'')) = None"
    by code_simp+
  have tm: "add_days friday 1 = Inr saturday" by code_simp
  have 7: "strptime_ymd ''2024-01- 5'' = Some \<lparr>year = 2024, month = 1, day = 5\<rparr>"
    "strptime_ymd ''2024-12-311'' = None"
    by code_simp+
  note t1 = date_arg_accepted [where w = ?w and cfg = example_config, THEN conjunct1]
  note t2 = date_arg_accepted [where s = "''today''" and t = friday, THEN conjunct2, THEN conjunct1]
  note t3 = date_arg_accepted [where s = "''Tomorrow''" and t = friday,
      THEN conjunct2, THEN conjunct2, THEN conjunct1]
  note t4 = date_arg_accepted [where s = "''2024-10-04''" and t = saturday and d = friday,
      THEN conjunct2, THEN conjunct2, THEN conjunct2, THEN conjunct1]
  note t5a = date_arg_accepted [where s = "''2024-10-04''",
      THEN conjunct2, THEN conjunct2, THEN conjunct2, THEN conjunct2, THEN conjunct1]
  note t5b = date_arg_accepted [where s = "''2024-02-30''",
      THEN conjunct2, THEN conjunct2, THEN conjunct2, THEN conjunct2, THEN conjunct1]
  note t6 = date_arg_accepted [where s = "''2024-02-30''" and t = friday,
      THEN conjunct2, THEN conjunct2, THEN conjunct2, THEN conjunct2, THEN conjunct2]
  have 1: "main example_config ?w = ([Print invalid_date_diagnostic], Some (SysExit 1))"
    using t1 y by blast
  have 2: "determine_base_date friday ''today'' = ([], Inr friday)"
    using t2 l(1) by blast
  have 3: "determine_base_date friday ''Tomorrow'' = ([], Inr saturday)"
    using t3 l(2) tm by simp
  have s4: "strptime_ymd ''2024-10-04'' = Some friday"
    using t5a iso(1) mk(1) by simp
  have 4: "determine_base_date saturday ''2024-10-04'' = ([], Inr friday)"
    using t4 l(3,4) s4 by blast
  have 5: "strptime_ymd ''2024-02-30'' = None"
    using t5b iso(2) mk(2) by simp
  have 6: "snd (determine_base_date friday ''2024-02-30'') = Inl (SysExit 1)"
    using t6 l(5,6) 5 by blast
  from 1 2 3 4 5 6 7 show ?thesis by (intro conjI)
qed

end
